theory Spec2Isabelle
  imports Main
begin

section \<open>Errors\<close>

text \<open>
  The errors of the Python standard library and of the geospatial libraries
  (shapely, geopandas and its drivers, pyproj) that the three functions of
  \<^verbatim>\<open>src/geo_utils.py\<close> can meet.  All of them are subclasses of Python's
  \<^verbatim>\<open>Exception\<close>, which is what the \<^verbatim>\<open>except Exception\<close> clauses of the source catch.
\<close>

datatype lib_error =
    ValueError
  | FileNotFoundError
  | FileExistsError
  | NotADirectoryError
  | PermissionError
  | DataSourceError
  | GEOSException
  | CRSError
  | OtherError string

text \<open>
  Modelled from the spec: the class \<^verbatim>\<open>WKTError\<close> is imported from
  \<^verbatim>\<open>.exceptions\<close>, a module of the repository that is not among the sources.
  The specification describes it as a single domain-specific error kind that
  wraps the original cause; \<^verbatim>\<open>raise WKTError(e)\<close> is \<open>WKTError e\<close>.  An error
  that leaves a function as the library raised it is \<open>Raised e\<close>.
\<close>

datatype exn = Raised lib_error | WKTError lib_error

section \<open>Paths: the part of pathlib the source uses\<close>

text \<open>
  A \<^verbatim>\<open>pathlib.Path\<close> on a POSIX system, as CPython 3.8 to 3.13 parses it:
  the root (\<open>''''\<close>, \<open>''/''\<close> or \<open>''//''\<close>) and the list of components.  Strings are
  lists of bytes; every character pathlib looks at (the separator and the dot)
  is ASCII.
\<close>

record path =
  root :: string
  parts :: "string list"

text \<open>\<^verbatim>\<open>str.split('/')\<close>.\<close>

fun split_sep :: "string \<Rightarrow> string list" where
  "split_sep [] = [[]]"
| "split_sep (c # cs) =
     (if c = CHR ''/'' then [] # split_sep cs
      else (case split_sep cs of [] \<Rightarrow> [[c]] | w # ws \<Rightarrow> (c # w) # ws))"

text \<open>\<^verbatim>\<open>posixpath.splitroot\<close>: exactly two leading slashes are kept as the root.\<close>

definition splitroot :: "string \<Rightarrow> string \<times> string" where
  "splitroot p =
     (if take 1 p \<noteq> ''/'' then ('''', p)
      else if take 1 (drop 1 p) \<noteq> ''/'' \<or> take 1 (drop 2 p) = ''/'' then (''/'', drop 1 p)
      else (take 2 p, drop 2 p))"

text \<open>\<^verbatim>\<open>Path(s)\<close> for a string: empty components and \<^verbatim>\<open>.\<close> components are dropped.\<close>

definition parse_path :: "string \<Rightarrow> path" where
  "parse_path s =
     (if s = [] then \<lparr>root = [], parts = []\<rparr>
      else (case splitroot s of (r, rel) \<Rightarrow>
        \<lparr>root = r, parts = filter (\<lambda>x. x \<noteq> [] \<and> x \<noteq> ''.'') (split_sep rel)\<rparr>))"

text \<open>An argument of type \<^verbatim>\<open>Path | str\<close>, and the constructor \<^verbatim>\<open>Path(arg)\<close>.\<close>

datatype pathlike = Str string | PathObj path

fun Path :: "pathlike \<Rightarrow> path" where
  "Path (Str s) = parse_path s"
| "Path (PathObj p) = p"

text \<open>\<^verbatim>\<open>PurePath.name\<close>: the last component, or the empty string.\<close>

definition name :: "path \<Rightarrow> string" where
  "name p = (if parts p = [] then [] else last (parts p))"

text \<open>\<^verbatim>\<open>str.rfind\<close> of one character: the last index where it occurs, or -1.\<close>

fun rfind :: "char \<Rightarrow> string \<Rightarrow> int" where
  "rfind c [] = - 1"
| "rfind c (x # xs) =
     (let i = rfind c xs in
      if 0 \<le> i then i + 1 else if x = c then 0 else - 1)"

text \<open>\<^verbatim>\<open>PurePath.suffix\<close> and \<^verbatim>\<open>PurePath.stem\<close>.\<close>

definition suffix :: "path \<Rightarrow> string" where
  "suffix p =
     (let n = name p; i = rfind CHR ''.'' n in
      if 0 < i \<and> i < int (length n) - 1 then drop (nat i) n else [])"

definition stem :: "path \<Rightarrow> string" where
  "stem p =
     (let n = name p; i = rfind CHR ''.'' n in
      if 0 < i \<and> i < int (length n) - 1 then take (nat i) n else n)"

text \<open>
  \<^verbatim>\<open>PurePath.with_suffix\<close>: \<^verbatim>\<open>ValueError\<close> for an invalid suffix and for a
  path with an empty name; otherwise the old suffix is cut off the name and
  the new one appended.
\<close>

definition with_suffix :: "path \<Rightarrow> string \<Rightarrow> lib_error + path" where
  "with_suffix p suf =
     (if CHR ''/'' \<in> set suf then Inl ValueError
      else if (suf \<noteq> [] \<and> take 1 suf \<noteq> ''.'') \<or> suf = ''.'' then Inl ValueError
      else if name p = [] then Inl ValueError
      else
        (let old_suffix = suffix p;
             n = (if old_suffix = [] then name p @ suf
                  else take (length (name p) - length old_suffix) (name p) @ suf)
         in Inr (p\<lparr>parts := butlast (parts p) @ [n]\<rparr>)))"

text \<open>
  \<^verbatim>\<open>path / segment\<close>: the segment is parsed; an absolute segment replaces the
  path, a relative one appends its components.
\<close>

definition truediv :: "path \<Rightarrow> string \<Rightarrow> path" where
  "truediv p s =
     (let q = parse_path s in
      if root q \<noteq> [] then q else p\<lparr>parts := parts p @ parts q\<rparr>)"

text \<open>\<^verbatim>\<open>PurePath.parent\<close>: a path without components is its own parent.\<close>

definition parent :: "path \<Rightarrow> path" where
  "parent p = (if parts p = [] then p else p\<lparr>parts := butlast (parts p)\<rparr>)"

text \<open>\<^verbatim>\<open>str.lower\<close> on ASCII letters.\<close>

definition lower_char :: "char \<Rightarrow> char" where
  "lower_char c =
     (case map_of (zip ''ABCDEFGHIJKLMNOPQRSTUVWXYZ'' ''abcdefghijklmnopqrstuvwxyz'') c of
        None \<Rightarrow> c
      | Some l \<Rightarrow> l)"

definition lower :: "string \<Rightarrow> string" where
  "lower s = map lower_char s"

section \<open>Datasets, the file system and the geospatial library\<close>

text \<open>
  A \<^verbatim>\<open>GeoDataFrame\<close> as far as the source looks at it: the geometry column and
  the coordinate reference system, which may be missing.  The types of
  geometries \<open>'g\<close>, of reference systems \<open>'c\<close> and of file contents \<open>'d\<close> belong
  to the libraries and stay abstract.
\<close>

record ('g, 'c) gdf =
  geometry :: "'g list"
  crs :: "'c option"

datatype 'd node = Dir | File 'd

type_synonym 'd filesystem = "path \<Rightarrow> 'd node option"

text \<open>The argument \<^verbatim>\<open>force_crs: str | int\<close>.\<close>

datatype crs_spec = CrsStr string | CrsInt int

text \<open>
  What the source calls in shapely, geopandas and pyproj.  The source fixes
  none of their results, so they are parameters of the model; every theorem
  below holds for every library.
  \<^item> \<open>loads\<close>: \<^verbatim>\<open>shapely.wkt.loads\<close>;
  \<^item> \<open>read_file\<close>: \<^verbatim>\<open>geopandas.read_file\<close>, which sees the file system;
  \<^item> \<open>unary_union\<close>, \<open>wkt\<close>: the properties \<^verbatim>\<open>GeoDataFrame.unary_union\<close> (over the
    geometry column) and \<^verbatim>\<open>.wkt\<close>;
  \<^item> \<open>from_user_input\<close>: \<^verbatim>\<open>pyproj.CRS.from_user_input\<close>, by which \<^verbatim>\<open>set_crs\<close> reads its
    argument;
  \<^item> \<open>to_file\<close>: \<^verbatim>\<open>GeoDataFrame.to_file(path, driver="ESRI Shapefile")\<close>, which
    changes the file system, also when it fails.
\<close>

record ('g, 'c, 'd) geolib =
  loads :: "string \<Rightarrow> lib_error + 'g"
  read_file :: "'d filesystem \<Rightarrow> pathlike \<Rightarrow> lib_error + ('g, 'c) gdf"
  unary_union :: "'g list \<Rightarrow> lib_error + 'g"
  wkt :: "'g \<Rightarrow> lib_error + string"
  from_user_input :: "crs_spec \<Rightarrow> lib_error + 'c"
  to_file :: "('g, 'c) gdf \<Rightarrow> path \<Rightarrow> 'd filesystem \<Rightarrow> (lib_error + unit) \<times> 'd filesystem"

text \<open>
  \<^verbatim>\<open>GeoDataFrame.set_crs(crs)\<close> with its defaults: the argument is read, a
  dataset that has a different reference system is refused, and otherwise
  the reference system is recorded; the geometries are not touched.
\<close>

definition set_crs ::
  "('g, 'c, 'd) geolib \<Rightarrow> ('g, 'c) gdf \<Rightarrow> crs_spec \<Rightarrow> lib_error + ('g, 'c) gdf" where
  "set_crs lib df spec =
     (case from_user_input lib spec of
        Inl e \<Rightarrow> Inl e
      | Inr c \<Rightarrow>
          if crs df \<noteq> None \<and> crs df \<noteq> Some c then Inl ValueError
          else Inr (df\<lparr>crs := Some c\<rparr>))"

subsection \<open>Directories\<close>

text \<open>
  Paths are resolved component by component below their root (the current
  directory for a relative path), which is a directory.  \<open>walk\<close> takes the
  components in reverse: everything but the last component must lead to a
  directory, then the last one is looked up.  Symbolic links and permissions
  are not modelled, and \<^verbatim>\<open>..\<close> is a component like any other.
\<close>

fun walk :: "'d filesystem \<Rightarrow> string \<Rightarrow> string list \<Rightarrow> lib_error + 'd node" where
  "walk fs r [] = Inr Dir"
| "walk fs r (x # before) =
     (case walk fs r before of
        Inl e \<Rightarrow> Inl e
      | Inr (File _) \<Rightarrow> Inl NotADirectoryError
      | Inr Dir \<Rightarrow>
          (case fs \<lparr>root = r, parts = rev (x # before)\<rparr> of
             None \<Rightarrow> Inl FileNotFoundError
           | Some n \<Rightarrow> Inr n))"

definition stat :: "'d filesystem \<Rightarrow> path \<Rightarrow> lib_error + 'd node" where
  "stat fs p = walk fs (root p) (rev (parts p))"

definition is_dir :: "'d filesystem \<Rightarrow> path \<Rightarrow> bool" where
  "is_dir fs p = (case stat fs p of Inr Dir \<Rightarrow> True | _ \<Rightarrow> False)"

text \<open>\<^verbatim>\<open>os.mkdir\<close>: one directory, whose parent has to exist.\<close>

definition os_mkdir :: "'d filesystem \<Rightarrow> path \<Rightarrow> lib_error + 'd filesystem" where
  "os_mkdir fs p =
     (case stat fs p of
        Inr _ \<Rightarrow> Inl FileExistsError
      | Inl e \<Rightarrow>
          if e = FileNotFoundError \<and> is_dir fs (parent p) then Inr (fs(p \<mapsto> Dir))
          else Inl e)"

text \<open>
  \<^verbatim>\<open>Path.mkdir(parents, exist_ok)\<close> as pathlib writes it: try \<^verbatim>\<open>os.mkdir\<close>; on
  \<^verbatim>\<open>FileNotFoundError\<close> create the parent with \<^verbatim>\<open>parents=True, exist_ok=True\<close>
  and try again without \<^verbatim>\<open>parents\<close>; any other \<^verbatim>\<open>OSError\<close> is ignored when
  \<^verbatim>\<open>exist_ok\<close> is set and the path is a directory.  The result is the
  exception, if any, and the file system the call leaves behind.
\<close>

function mkdir ::
  "bool \<Rightarrow> bool \<Rightarrow> 'd filesystem \<Rightarrow> path \<Rightarrow> (lib_error + unit) \<times> 'd filesystem" where
  "mkdir parents exist_ok fs p =
     (case os_mkdir fs p of
        Inr fs' \<Rightarrow> (Inr (), fs')
      | Inl e \<Rightarrow>
          if e = FileNotFoundError then
            (if \<not> parents \<or> parent p = p then (Inl e, fs)
             else (case mkdir True True fs (parent p) of
                     (Inl e', fs') \<Rightarrow> (Inl e', fs')
                   | (Inr _, fs') \<Rightarrow> mkdir False exist_ok fs' p))
          else if \<not> exist_ok \<or> \<not> is_dir fs p then (Inl e, fs)
          else (Inr (), fs))"
  by pat_completeness auto
termination
proof (relation "measures [\<lambda>(ps, ok, fs, p). length (parts p), \<lambda>(ps, ok, fs, p). if ps then 1 else 0]")
  show "wf (measures [\<lambda>(ps, ok, fs::'d filesystem, p). length (parts p), \<lambda>(ps, ok, fs, p). if ps then 1 else (0::nat)])"
    by simp
next
  fix parents exist_ok :: bool and fs :: "'d filesystem" and p :: path and e :: lib_error
  assume "\<not> (\<not> parents \<or> parent p = p)"
  then have "parts p \<noteq> []"
    by (auto simp: parent_def)
  then show "((True, True, fs, parent p), (parents, exist_ok, fs, p))
      \<in> measures [\<lambda>(ps, ok, fs, p). length (parts p), \<lambda>(ps, ok, fs, p). if ps then 1 else 0]"
    by (simp add: parent_def)
next
  fix parents exist_ok :: bool and fs fs' :: "'d filesystem" and p :: path and e :: lib_error
  assume "\<not> (\<not> parents \<or> parent p = p)"
  then show "((False, exist_ok, fs', p), (parents, exist_ok, fs, p))
      \<in> measures [\<lambda>(ps, ok, fs, p). length (parts p), \<lambda>(ps, ok, fs, p). if ps then 1 else 0]"
    by simp
qed

text \<open>The equation of \<open>mkdir\<close> calls itself: it is unfolded by hand, one call at a time.\<close>

declare mkdir.simps [simp del]

section \<open>The functions of geo_utils.py\<close>

text \<open>
  \<^verbatim>\<open>is_wkt\<close> (lines 6 to 12): \<^verbatim>\<open>loads(text)\<close> inside \<^verbatim>\<open>try\<close>; every exception
  gives \<^verbatim>\<open>False\<close>.
\<close>

definition is_wkt :: "('g, 'c, 'd) geolib \<Rightarrow> string \<Rightarrow> exn + bool" where
  "is_wkt lib text = (case loads lib text of Inr _ \<Rightarrow> Inr True | Inl _ \<Rightarrow> Inr False)"

text \<open>
  The block that \<^verbatim>\<open>to_openeo_wkt\<close> contains twice (lines 23 to 27 and 29 to
  33): read the file, take \<^verbatim>\<open>gdf.unary_union.wkt\<close>, and turn every exception
  \<^verbatim>\<open>e\<close> into \<^verbatim>\<open>WKTError(e)\<close>.
\<close>

definition read_union_wkt ::
  "('g, 'c, 'd) geolib \<Rightarrow> 'd filesystem \<Rightarrow> pathlike \<Rightarrow> exn + string option" where
  "read_union_wkt lib fs aoi =
     (case read_file lib fs aoi of
        Inl e \<Rightarrow> Inl (WKTError e)
      | Inr df \<Rightarrow>
          (case unary_union lib (geometry df) of
             Inl e \<Rightarrow> Inl (WKTError e)
           | Inr g \<Rightarrow>
               (case wkt lib g of
                  Inl e \<Rightarrow> Inl (WKTError e)
                | Inr w \<Rightarrow> Inr (Some w))))"

text \<open>\<^verbatim>\<open>to_openeo_wkt\<close> (lines 14 to 33); the argument is \<^verbatim>\<open>Path | str | None\<close>.\<close>

definition to_openeo_wkt ::
  "('g, 'c, 'd) geolib \<Rightarrow> 'd filesystem \<Rightarrow> pathlike option \<Rightarrow> exn + string option" where
  "to_openeo_wkt lib fs aoi =
     (case aoi of
        None \<Rightarrow> Inr None
      | Some (Str s) \<Rightarrow>
          (case is_wkt lib s of
             Inl e \<Rightarrow> Inl e
           | Inr b \<Rightarrow> if b then Inr (Some s) else read_union_wkt lib fs (Str s))
      | Some (PathObj p) \<Rightarrow> read_union_wkt lib fs (PathObj p))"

text \<open>
  \<^verbatim>\<open>geojson_to_shapefile\<close>, lines 53 to 65: the destination.  \<^verbatim>\<open>with_suffix\<close>
  can raise \<^verbatim>\<open>ValueError\<close>.
\<close>

definition output_path_of :: "pathlike \<Rightarrow> pathlike option \<Rightarrow> lib_error + path" where
  "output_path_of geojson_path shapefile_path =
     (let input_path = Path geojson_path in
      case shapefile_path of
        None \<Rightarrow> with_suffix input_path ''.shp''
      | Some sp \<Rightarrow>
          (let output_candidate = Path sp in
           if lower (suffix output_candidate) = [] then
             Inr (truediv output_candidate (stem input_path @ ''.shp''))
           else if lower (suffix output_candidate) \<noteq> ''.shp'' then
             with_suffix output_candidate ''.shp''
           else Inr output_candidate))"

text \<open>
  \<^verbatim>\<open>geojson_to_shapefile\<close>, lines 71 and 72: the dataset that will be written.
\<close>

definition apply_force_crs ::
  "('g, 'c, 'd) geolib \<Rightarrow> ('g, 'c) gdf \<Rightarrow> crs_spec option \<Rightarrow> lib_error + ('g, 'c) gdf" where
  "apply_force_crs lib df force_crs =
     (case (crs df, force_crs) of
        (None, Some spec) \<Rightarrow> set_crs lib df spec
      | _ \<Rightarrow> Inr df)"

text \<open>
  \<^verbatim>\<open>geojson_to_shapefile\<close>, lines 35 to 76.  The result is what the call
  returns or raises, together with the file system it leaves behind.
\<close>

definition geojson_to_shapefile ::
  "('g, 'c, 'd) geolib \<Rightarrow> 'd filesystem \<Rightarrow> pathlike \<Rightarrow> pathlike option \<Rightarrow> crs_spec option
     \<Rightarrow> (exn + path) \<times> 'd filesystem" where
  "geojson_to_shapefile lib fs geojson_path shapefile_path force_crs =
     (case output_path_of geojson_path shapefile_path of
        Inl e \<Rightarrow> (Inl (Raised e), fs)
      | Inr output_path \<Rightarrow>
          (case mkdir True True fs (parent output_path) of
             (Inl e, fs1) \<Rightarrow> (Inl (Raised e), fs1)
           | (Inr _, fs1) \<Rightarrow>
               (case read_file lib fs1 (PathObj (Path geojson_path)) of
                  Inl e \<Rightarrow> (Inl (Raised e), fs1)
                | Inr df \<Rightarrow>
                    (case apply_force_crs lib df force_crs of
                       Inl e \<Rightarrow> (Inl (Raised e), fs1)
                     | Inr df' \<Rightarrow>
                         (case to_file lib df' output_path fs1 of
                            (Inl e, fs2) \<Rightarrow> (Inl (Raised e), fs2)
                          | (Inr _, fs2) \<Rightarrow> (Inr output_path, fs2))))))"

section \<open>Notions the properties are stated with\<close>

text \<open>
  What every \<^verbatim>\<open>Path\<close> object satisfies: the root is one of three strings, and
  no component is empty, a single dot, or contains the separator.  A path
  parsed from a string has this form (\<open>parse_path_wf\<close> below); for a path object
  passed in by the caller it is a hypothesis.
\<close>

definition wf_path :: "path \<Rightarrow> bool" where
  "wf_path p =
     ((root p = [] \<or> root p = ''/'' \<or> root p = ''//'')
      \<and> (\<forall>x \<in> set (parts p). x \<noteq> [] \<and> x \<noteq> ''.'' \<and> CHR ''/'' \<notin> set x))"

fun wf_pathlike :: "pathlike \<Rightarrow> bool" where
  "wf_pathlike (Str s) = True"
| "wf_pathlike (PathObj p) = wf_path p"

text \<open>A path together with all its ancestors, from the root down to the path itself.\<close>

definition lineage :: "path \<Rightarrow> path list" where
  "lineage p = map (\<lambda>k. p\<lparr>parts := take k (parts p)\<rparr>) [0 ..< Suc (length (parts p))]"

text \<open>
  The destination in the words of the specification (section 4.3, step 1):
  without an output, the directory and stem of the input with the extension
  \<^verbatim>\<open>.shp\<close>; an output without extension is a directory, and the destination
  is \<^verbatim>\<open><dir>/<input-stem>.shp\<close>; an output whose extension is \<^verbatim>\<open>.shp\<close> in any
  letter case is used as it is; any other extension is replaced by \<^verbatim>\<open>.shp\<close>.
\<close>

definition spec_destination :: "path \<Rightarrow> path option \<Rightarrow> path" where
  "spec_destination input output =
     (case output of
        None \<Rightarrow> \<lparr>root = root input, parts = butlast (parts input) @ [stem input @ ''.shp'']\<rparr>
      | Some out \<Rightarrow>
          if suffix out = [] then
            \<lparr>root = root out, parts = parts out @ [stem input @ ''.shp'']\<rparr>
          else if lower (suffix out) = ''.shp'' then out
          else \<lparr>root = root out, parts = butlast (parts out) @ [stem out @ ''.shp'']\<rparr>)"

text \<open>
  A file system changes from \<open>fs\<close> to \<open>fs'\<close> only by new directories among the
  paths \<open>ps\<close>.
\<close>

definition only_new_dirs :: "'d filesystem \<Rightarrow> 'd filesystem \<Rightarrow> path list \<Rightarrow> bool" where
  "only_new_dirs fs fs' ps =
     (\<forall>q. fs' q \<noteq> fs q \<longrightarrow> fs q = None \<and> fs' q = Some Dir \<and> q \<in> set ps)"

section \<open>A small library to run the functions on\<close>

text \<open>
  A stand-in for the libraries, used only to evaluate the functions at
  concrete inputs.  A geometry is its text, a reference system its EPSG
  number, and a file holds the dataset it stores; the reader accepts two
  point literals, and reading needs a file at the path.
\<close>

definition example_lib :: "(string, int, (string, int) gdf) geolib" where
  "example_lib =
     \<lparr>loads = (\<lambda>s. if s = ''POINT (0 0)'' \<or> s = ''POINT (1 2)'' then Inr s
                   else Inl GEOSException),
      read_file = (\<lambda>fs a. case stat fs (Path a) of
                     Inr (File d) \<Rightarrow> Inr d
                   | _ \<Rightarrow> Inl DataSourceError),
      unary_union = (\<lambda>gs. if gs = [] then Inr ''GEOMETRYCOLLECTION EMPTY''
                          else Inr (''UNION '' @ concat gs)),
      wkt = (\<lambda>g. Inr g),
      from_user_input = (\<lambda>spec. case spec of
                     CrsInt n \<Rightarrow> if 1024 \<le> n \<and> n \<le> 32767 then Inr n else Inl CRSError
                   | CrsStr s \<Rightarrow> if s = ''EPSG:4326'' then Inr 4326 else Inl CRSError),
      to_file = (\<lambda>df p fs. if is_dir fs (parent p) \<and> \<not> is_dir fs p
                     then (Inr (), fs(p \<mapsto> File df))
                     else (Inl DataSourceError, fs))\<rparr>"

definition two_polygons :: "(string, int) gdf" where
  "two_polygons = \<lparr>geometry = [''POLYGON A'', ''POLYGON B''], crs = None\<rparr>"

definition example_fs :: "(string, int) gdf filesystem" where
  "example_fs = Map.empty(\<lparr>root = [], parts = [''data.geojson'']\<rparr> \<mapsto> File two_polygons)"

text \<open>
  The same dataset once it carries a reference system, and the example file
  system after the directories \<^verbatim>\<open>out\<close> and \<^verbatim>\<open>out/sub\<close> have been created.
\<close>

definition labelled_polygons :: "(string, int) gdf" where
  "labelled_polygons = \<lparr>geometry = [''POLYGON A'', ''POLYGON B''], crs = Some 4326\<rparr>"

definition out_sub_fs :: "(string, int) gdf filesystem" where
  "out_sub_fs =
     example_fs(\<lparr>root = [], parts = [''out'']\<rparr> \<mapsto> Dir,
                \<lparr>root = [], parts = [''out'', ''sub'']\<rparr> \<mapsto> Dir)"

text \<open>
  The example library with a reader that also takes a directory as a dataset,
  as GDAL does for a directory of shapefiles.
\<close>

definition directory_lib :: "(string, int, (string, int) gdf) geolib" where
  "directory_lib =
     example_lib\<lparr>read_file := (\<lambda>fs a. case stat fs (Path a) of
                     Inr (File d) \<Rightarrow> Inr d
                   | Inr Dir \<Rightarrow> Inr two_polygons
                   | Inl e \<Rightarrow> Inl DataSourceError)\<rparr>"

section \<open>The WKT validator and the normalizer\<close>

text \<open>
  C3.  For every string, \<open>is_wkt\<close> returns a boolean and never raises: true
  exactly when \<^verbatim>\<open>loads\<close> parses the string, false when \<^verbatim>\<open>loads\<close> raises,
  whatever it raises.
\<close>

theorem is_wkt_never_raises:
  "is_wkt lib text = Inr (\<exists>g. loads lib text = Inr g)
   \<and> (\<forall>e. loads lib text = Inl e \<longrightarrow> is_wkt lib text = Inr False)
   \<and> (\<forall>g. loads lib text = Inr g \<longrightarrow> is_wkt lib text = Inr True)"
  by (cases "loads lib text") (simp_all add: is_wkt_def)

text \<open>The three examples of the specification, on the example library.\<close>

theorem is_wkt_never_raises_witness:
  "loads example_lib ''POINT (0 0)'' = Inr ''POINT (0 0)''
   \<and> is_wkt example_lib ''POINT (0 0)'' = Inr True
   \<and> loads example_lib ''not a geometry'' = Inl GEOSException
   \<and> is_wkt example_lib ''not a geometry'' = Inr False
   \<and> loads example_lib [] = Inl GEOSException
   \<and> is_wkt example_lib [] = Inr False"
  using is_wkt_never_raises [of example_lib "''POINT (0 0)''"]
    is_wkt_never_raises [of example_lib "''not a geometry''"]
    is_wkt_never_raises [of example_lib "[]"]
  by (simp add: example_lib_def)

text \<open>
  C4.  On a string for which \<open>is_wkt\<close> is true, \<open>to_openeo_wkt\<close> returns that very
  string; no file is read: the result is the same for every file reader and
  every file system.
\<close>

theorem to_openeo_wkt_identity_on_wkt:
  assumes "is_wkt lib s = Inr True"
  shows "to_openeo_wkt lib fs (Some (Str s)) = Inr (Some s)
    \<and> (\<forall>reader fs'. to_openeo_wkt (lib\<lparr>read_file := reader\<rparr>) fs' (Some (Str s)) = Inr (Some s))"
  using assms by (simp add: to_openeo_wkt_def is_wkt_def split: sum.splits)

theorem to_openeo_wkt_identity_on_wkt_witness:
  "is_wkt example_lib ''POINT (1 2)'' = Inr True
   \<and> to_openeo_wkt example_lib example_fs (Some (Str ''POINT (1 2)'')) = Inr (Some ''POINT (1 2)'')"
proof -
  have h: "is_wkt example_lib ''POINT (1 2)'' = Inr True"
    by (simp add: is_wkt_def example_lib_def)
  show ?thesis
    using h to_openeo_wkt_identity_on_wkt [OF h, of example_fs] by simp
qed

text \<open>
  C1.  \<open>to_openeo_wkt\<close> returns \<^verbatim>\<open>None\<close> for \<^verbatim>\<open>None\<close>.  For a path object, and
  for a string on which \<open>is_wkt\<close> is false, it reads the file and returns the
  WKT text of the union of the whole geometry column: one string, however
  many geometries the dataset holds.  For a path object the result does not
  depend on the WKT parser at all.
\<close>

theorem to_openeo_wkt_cases:
  "to_openeo_wkt lib fs None = Inr None
   \<and> (\<forall>aoi df g w.
        (\<forall>s. aoi = Str s \<longrightarrow> is_wkt lib s = Inr False) \<longrightarrow>
        read_file lib fs aoi = Inr df \<longrightarrow>
        unary_union lib (geometry df) = Inr g \<longrightarrow>
        wkt lib g = Inr w \<longrightarrow>
        to_openeo_wkt lib fs (Some aoi) = Inr (Some w))
   \<and> (\<forall>p parser.
        to_openeo_wkt (lib\<lparr>loads := parser\<rparr>) fs (Some (PathObj p))
          = to_openeo_wkt lib fs (Some (PathObj p)))"
proof (intro conjI allI impI)
  show "to_openeo_wkt lib fs None = Inr None"
    by (simp add: to_openeo_wkt_def)
next
  fix aoi df g w
  assume "\<forall>s. aoi = Str s \<longrightarrow> is_wkt lib s = Inr False"
    and "read_file lib fs aoi = Inr df"
    and "unary_union lib (geometry df) = Inr g"
    and "wkt lib g = Inr w"
  then show "to_openeo_wkt lib fs (Some aoi) = Inr (Some w)"
    by (cases aoi) (simp_all add: to_openeo_wkt_def read_union_wkt_def)
next
  fix p parser
  show "to_openeo_wkt (lib\<lparr>loads := parser\<rparr>) fs (Some (PathObj p))
      = to_openeo_wkt lib fs (Some (PathObj p))"
    by (simp add: to_openeo_wkt_def read_union_wkt_def split: sum.splits)
qed

lemma example_read_data:
  "read_file example_lib example_fs (Str ''data.geojson'') = Inr two_polygons"
  "read_file example_lib example_fs (PathObj \<lparr>root = [], parts = [''data.geojson'']\<rparr>)
     = Inr two_polygons"
  by (simp_all add: example_lib_def example_fs_def stat_def parse_path_def splitroot_def)

theorem to_openeo_wkt_cases_witness:
  "to_openeo_wkt example_lib example_fs None = Inr None
   \<and> is_wkt example_lib ''data.geojson'' = Inr False
   \<and> read_file example_lib example_fs (Str ''data.geojson'') = Inr two_polygons
   \<and> unary_union example_lib (geometry two_polygons) = Inr ''UNION POLYGON APOLYGON B''
   \<and> wkt example_lib ''UNION POLYGON APOLYGON B'' = Inr ''UNION POLYGON APOLYGON B''
   \<and> to_openeo_wkt example_lib example_fs (Some (Str ''data.geojson''))
       = Inr (Some ''UNION POLYGON APOLYGON B'')
   \<and> to_openeo_wkt example_lib example_fs
         (Some (PathObj \<lparr>root = [], parts = [''data.geojson'']\<rparr>))
       = Inr (Some ''UNION POLYGON APOLYGON B'')"
proof -
  have a: "is_wkt example_lib ''data.geojson'' = Inr False"
    by (simp add: is_wkt_def example_lib_def)
  have u: "unary_union example_lib (geometry two_polygons) = Inr ''UNION POLYGON APOLYGON B''"
    by (simp add: example_lib_def two_polygons_def)
  have w: "wkt example_lib ''UNION POLYGON APOLYGON B'' = Inr ''UNION POLYGON APOLYGON B''"
    by (simp add: example_lib_def)
  note t = to_openeo_wkt_cases [of example_lib example_fs]
  from t have n: "to_openeo_wkt example_lib example_fs None = Inr None"
    by blast
  from t a example_read_data(1) u w
  have s: "to_openeo_wkt example_lib example_fs (Some (Str ''data.geojson''))
      = Inr (Some ''UNION POLYGON APOLYGON B'')"
    by blast
  from t example_read_data(2) u w
  have p: "to_openeo_wkt example_lib example_fs
        (Some (PathObj \<lparr>root = [], parts = [''data.geojson'']\<rparr>))
      = Inr (Some ''UNION POLYGON APOLYGON B'')"
    by blast
  from n a example_read_data(1) u w s p show ?thesis
    by simp
qed

text \<open>
  C2.  When \<open>to_openeo_wkt\<close> goes to the file (a path object, or a string on
  which \<open>is_wkt\<close> is false), an error of the reader, of the union or of the WKT
  writer comes out as \<open>WKTError\<close> of that error; and whatever the input,
  an error raised by \<open>to_openeo_wkt\<close> is a \<open>WKTError\<close>.
\<close>

theorem to_openeo_wkt_raises_only_WKTError:
  "(\<forall>aoi e.
      (\<forall>s. aoi = Str s \<longrightarrow> is_wkt lib s = Inr False) \<longrightarrow>
      read_file lib fs aoi = Inl e \<longrightarrow>
      to_openeo_wkt lib fs (Some aoi) = Inl (WKTError e))
   \<and> (\<forall>aoi df e.
      (\<forall>s. aoi = Str s \<longrightarrow> is_wkt lib s = Inr False) \<longrightarrow>
      read_file lib fs aoi = Inr df \<longrightarrow>
      unary_union lib (geometry df) = Inl e \<longrightarrow>
      to_openeo_wkt lib fs (Some aoi) = Inl (WKTError e))
   \<and> (\<forall>aoi df g e.
      (\<forall>s. aoi = Str s \<longrightarrow> is_wkt lib s = Inr False) \<longrightarrow>
      read_file lib fs aoi = Inr df \<longrightarrow>
      unary_union lib (geometry df) = Inr g \<longrightarrow>
      wkt lib g = Inl e \<longrightarrow>
      to_openeo_wkt lib fs (Some aoi) = Inl (WKTError e))
   \<and> (\<forall>aoi x. to_openeo_wkt lib fs aoi = Inl x \<longrightarrow> (\<exists>e. x = WKTError e))"
proof (intro conjI allI impI)
  fix aoi e
  assume "\<forall>s. aoi = Str s \<longrightarrow> is_wkt lib s = Inr False" and "read_file lib fs aoi = Inl e"
  then show "to_openeo_wkt lib fs (Some aoi) = Inl (WKTError e)"
    by (cases aoi) (simp_all add: to_openeo_wkt_def read_union_wkt_def)
next
  fix aoi df e
  assume "\<forall>s. aoi = Str s \<longrightarrow> is_wkt lib s = Inr False" and "read_file lib fs aoi = Inr df"
    and "unary_union lib (geometry df) = Inl e"
  then show "to_openeo_wkt lib fs (Some aoi) = Inl (WKTError e)"
    by (cases aoi) (simp_all add: to_openeo_wkt_def read_union_wkt_def)
next
  fix aoi df g e
  assume "\<forall>s. aoi = Str s \<longrightarrow> is_wkt lib s = Inr False" and "read_file lib fs aoi = Inr df"
    and "unary_union lib (geometry df) = Inr g" and "wkt lib g = Inl e"
  then show "to_openeo_wkt lib fs (Some aoi) = Inl (WKTError e)"
    by (cases aoi) (simp_all add: to_openeo_wkt_def read_union_wkt_def)
next
  fix aoi x
  assume "to_openeo_wkt lib fs aoi = Inl x"
  then show "\<exists>e. x = WKTError e"
    by (auto simp: to_openeo_wkt_def read_union_wkt_def is_wkt_def
        split: option.splits pathlike.splits sum.splits if_splits)
qed

theorem to_openeo_wkt_raises_only_WKTError_witness:
  "is_wkt example_lib ''/nonexistent/file.geojson'' = Inr False
   \<and> read_file example_lib example_fs (Str ''/nonexistent/file.geojson'') = Inl DataSourceError
   \<and> to_openeo_wkt example_lib example_fs (Some (Str ''/nonexistent/file.geojson''))
       = Inl (WKTError DataSourceError)"
proof -
  have a: "is_wkt example_lib ''/nonexistent/file.geojson'' = Inr False"
    by (simp add: is_wkt_def example_lib_def)
  have r: "read_file example_lib example_fs (Str ''/nonexistent/file.geojson'')
      = Inl DataSourceError"
    by (simp add: example_lib_def example_fs_def stat_def parse_path_def splitroot_def)
  from to_openeo_wkt_raises_only_WKTError [of example_lib example_fs] a r
  have "to_openeo_wkt example_lib example_fs (Some (Str ''/nonexistent/file.geojson''))
      = Inl (WKTError DataSourceError)"
    by blast
  with a r show ?thesis
    by simp
qed

section \<open>Facts about paths\<close>

text \<open>
  How \<open>rfind\<close>, \<open>stem\<close>, \<open>suffix\<close>, \<open>with_suffix\<close> and the parser behave; they
  lead to \<open>output_path_of_spec\<close>: the destination computed by the code is the one
  the specification describes, and the only failure is a missing output
  together with an input that has no file name.
\<close>

lemma rfind_absent: "c \<notin> set xs \<Longrightarrow> rfind c xs = - 1"
  by (induction xs) (auto simp: Let_def)

lemma rfind_bounds: "- 1 \<le> rfind c xs \<and> rfind c xs < int (length xs)"
  by (induction xs) (auto simp: Let_def)

lemma rfind_append_last: "c \<notin> set ys \<Longrightarrow> rfind c (xs @ c # ys) = int (length xs)"
  by (induction xs) (auto simp: Let_def rfind_absent)

lemma stem_suffix: "stem p @ suffix p = name p"
  by (simp add: stem_def suffix_def Let_def)

lemma suffix_empty_stem: "suffix p = [] \<Longrightarrow> stem p = name p"
  using stem_suffix [of p] by simp

lemma stem_empty_iff: "stem p = [] \<longleftrightarrow> name p = []"
  using rfind_bounds [of "CHR ''.''" "name p"]
  by (auto simp: stem_def Let_def)

lemma length_stem: "length (name p) - length (suffix p) = length (stem p)"
  using stem_suffix [of p] by (metis add_diff_cancel_right' length_append)

lemma take_stem: "take (length (name p) - length (suffix p)) (name p) = stem p"
  using stem_suffix [of p] length_stem [of p] by (metis append_eq_conv_conj)

lemma with_suffix_shp:
  "with_suffix p ''.shp'' =
     (if name p = [] then Inl ValueError
      else Inr \<lparr>root = root p, parts = butlast (parts p) @ [stem p @ ''.shp'']\<rparr>)"
  by (simp add: with_suffix_def Let_def take_stem suffix_empty_stem)

lemma suffix_of_shp_name:
  assumes "name q = st @ ''.shp''"
  shows "suffix q = (if st = [] then [] else ''.shp'')"
proof -
  have "rfind CHR ''.'' (st @ CHR ''.'' # ''shp'') = int (length st)"
    by (rule rfind_append_last) simp
  then show ?thesis using assms by (simp add: suffix_def Let_def)
qed

lemma split_sep_no_sep: "CHR ''/'' \<notin> set s \<Longrightarrow> split_sep s = [s]"
  by (induction s) auto

lemma split_sep_parts: "x \<in> set (split_sep s) \<Longrightarrow> CHR ''/'' \<notin> set x"
  by (induction s arbitrary: x) (auto split: if_splits list.splits)

lemma parse_single:
  "CHR ''/'' \<notin> set s \<Longrightarrow> s \<noteq> [] \<Longrightarrow> s \<noteq> ''.'' \<Longrightarrow> parse_path s = \<lparr>root = [], parts = [s]\<rparr>"
  by (cases s) (auto simp: parse_path_def splitroot_def split_sep_no_sep)

lemma splitroot_root: "fst (splitroot s) = [] \<or> fst (splitroot s) = ''/'' \<or> fst (splitroot s) = ''//''"
proof (cases s)
  case Nil then show ?thesis by (simp add: splitroot_def)
next
  case (Cons a t)
  then show ?thesis by (cases t) (auto simp: splitroot_def)
qed

lemma parse_path_wf: "wf_path (parse_path s)"
  using splitroot_root [of s]
  by (auto simp: wf_path_def parse_path_def split: prod.splits dest: split_sep_parts)

lemma wf_Path: "wf_pathlike a \<Longrightarrow> wf_path (Path a)"
  by (cases a) (simp_all add: parse_path_wf)

lemma wf_name: "wf_path p \<Longrightarrow> CHR ''/'' \<notin> set (name p)"
  by (auto simp: wf_path_def name_def)

lemma stem_no_sep: 
  assumes "wf_path p" shows "CHR ''/'' \<notin> set (stem p)"
proof -
  have "set (stem p) \<subseteq> set (name p)"
    using stem_suffix [of p] by (metis Un_upper1 set_append)
  with wf_name [OF assms] show ?thesis by blast
qed

lemma truediv_stem_shp:
  assumes "wf_path i"
  shows "truediv c (stem i @ ''.shp'') = \<lparr>root = root c, parts = parts c @ [stem i @ ''.shp'']\<rparr>"
proof -
  have "parse_path (stem i @ ''.shp'') = \<lparr>root = [], parts = [stem i @ ''.shp'']\<rparr>"
    using stem_no_sep [OF assms] by (intro parse_single) auto
  then show ?thesis by (simp add: truediv_def)
qed

lemma suffix_nonempty_name: "suffix p \<noteq> [] \<Longrightarrow> name p \<noteq> []"
  by (auto simp: suffix_def Let_def)

lemma lower_empty: "lower s = [] \<longleftrightarrow> s = []"
  by (simp add: lower_def)

lemma output_path_of_spec:
  assumes "wf_pathlike geojson_path"
  shows "output_path_of geojson_path shapefile_path =
     (if shapefile_path = None \<and> name (Path geojson_path) = [] then Inl ValueError
      else Inr (spec_destination (Path geojson_path) (map_option Path shapefile_path)))"
proof (cases shapefile_path)
  case None
  then show ?thesis
    by (simp add: output_path_of_def spec_destination_def with_suffix_shp Let_def)
next
  case (Some sp)
  let ?c = "Path sp"
  have t: "truediv ?c (stem (Path geojson_path) @ ''.shp'')
      = \<lparr>root = root ?c, parts = parts ?c @ [stem (Path geojson_path) @ ''.shp'']\<rparr>"
    by (rule truediv_stem_shp [OF wf_Path [OF assms]])
  show ?thesis
  proof (cases "suffix ?c = []")
    case True
    with Some t show ?thesis
      by (simp add: output_path_of_def spec_destination_def lower_empty Let_def)
  next
    case False
    then have "name ?c \<noteq> []"
      by (rule suffix_nonempty_name)
    with Some False show ?thesis
      by (simp add: output_path_of_def spec_destination_def with_suffix_shp lower_empty Let_def)
  qed
qed

lemma geojson_to_shapefile_returns:
  assumes "geojson_to_shapefile lib fs gp sp force = (Inr p, fs')"
  shows "output_path_of gp sp = Inr p"
  using assms
  by (auto simp: geojson_to_shapefile_def split: sum.splits prod.splits)

section \<open>Facts about directories\<close>

text \<open>
  \<open>mkdir_effect\<close>: whatever \<open>mkdir\<close> returns, it only adds directories on the way
  to its path, and when it does not raise the path is a directory afterwards,
  hence so are all its ancestors.
\<close>

lemma stat_root: "parts p = [] \<Longrightarrow> stat fs p = Inr Dir"
  by (simp add: stat_def)

lemma stat_step:
  assumes "parts p \<noteq> []"
  shows "stat fs p =
     (case stat fs (parent p) of
        Inl e \<Rightarrow> Inl e
      | Inr (File d) \<Rightarrow> Inl NotADirectoryError
      | Inr Dir \<Rightarrow> (case fs p of None \<Rightarrow> Inl FileNotFoundError | Some n \<Rightarrow> Inr n))"
proof -
  from assms obtain xs x where px: "parts p = xs @ [x]"
    by (metis rev_exhaust)
  have "p = \<lparr>root = root p, parts = xs @ [x]\<rparr>"
    using px by (cases p) simp
  then have "fs \<lparr>root = root p, parts = xs @ [x]\<rparr> = fs p"
    by simp
  then show ?thesis
    using px by (simp add: stat_def parent_def split: sum.splits node.splits)
qed

lemma is_dir_root: "parts p = [] \<Longrightarrow> is_dir fs p"
  by (simp add: is_dir_def stat_root)

lemma is_dir_parent: "is_dir fs p \<Longrightarrow> is_dir fs (parent p)"
proof (cases "parts p = []")
  case True
  then show "is_dir fs p \<Longrightarrow> is_dir fs (parent p)" by (simp add: parent_def)
next
  case False
  assume "is_dir fs p"
  then show "is_dir fs (parent p)"
    using stat_step [OF False, of fs]
    by (auto simp: is_dir_def split: sum.splits node.splits)
qed

lemma lineage_root: "parts p = [] \<Longrightarrow> lineage p = [p]"
  by (simp add: lineage_def)

lemma lineage_step:
  assumes "parts p \<noteq> []"
  shows "lineage p = lineage (parent p) @ [p]"
proof -
  have a: "map (\<lambda>k. p\<lparr>parts := take k (parts p)\<rparr>) [0 ..< length (parts p)]
      = map (\<lambda>k. p\<lparr>parts := take k (butlast (parts p))\<rparr>) [0 ..< length (parts p)]"
    by (rule map_cong) (simp_all add: take_butlast)
  show ?thesis
    using assms by (simp add: lineage_def parent_def a)
qed

lemma self_in_lineage: "p \<in> set (lineage p)"
  by (cases "parts p = []") (simp_all add: lineage_root lineage_step)

lemma parent_lineage: "set (lineage (parent p)) \<subseteq> set (lineage p)"
proof (cases "parts p = []")
  case True
  then show ?thesis by (simp add: parent_def)
next
  case False
  then show ?thesis by (auto simp: lineage_step)
qed

lemma is_dir_lineage: "is_dir fs p \<Longrightarrow> q \<in> set (lineage p) \<Longrightarrow> is_dir fs q"
proof (induction "length (parts p)" arbitrary: p)
  case 0
  then show ?case by (simp add: lineage_root)
next
  case (Suc n)
  then have ne: "parts p \<noteq> []" by auto
  have "length (parts (parent p)) = n"
    using Suc.hyps(2) ne by (simp add: parent_def)
  with Suc.hyps(1) [of "parent p"] is_dir_parent [OF Suc.prems(1)]
  have "q \<in> set (lineage (parent p)) \<Longrightarrow> is_dir fs q"
    by simp
  with Suc.prems show ?case
    by (auto simp: lineage_step [OF ne])
qed

lemma walk_kept:
  assumes "\<And>q. fs q \<noteq> None \<Longrightarrow> fs' q = fs q"
  shows "walk fs r ys = Inr n \<Longrightarrow> walk fs' r ys = Inr n"
proof (induction ys arbitrary: n)
  case Nil
  then show ?case by simp
next
  case (Cons x before)
  from Cons.prems have b: "walk fs r before = Inr Dir"
    by (auto split: sum.splits node.splits)
  from Cons.prems b have "fs \<lparr>root = r, parts = rev (x # before)\<rparr> = Some n"
    by (auto split: option.splits)
  with assms [of "\<lparr>root = r, parts = rev (x # before)\<rparr>"]
  have "fs' \<lparr>root = r, parts = rev (x # before)\<rparr> = Some n"
    by simp
  with Cons.IH [OF b] show ?case by simp
qed

lemma is_dir_kept:
  assumes "only_new_dirs fs fs' ps" and "is_dir fs q"
  shows "is_dir fs' q"
proof -
  have k: "\<And>q. fs q \<noteq> None \<Longrightarrow> fs' q = fs q"
    using assms(1) by (auto simp: only_new_dirs_def)
  from assms(2) have "stat fs q = Inr Dir"
    by (auto simp: is_dir_def split: sum.splits node.splits)
  then have "stat fs' q = Inr Dir"
    using walk_kept [of fs fs' "root q" "rev (parts q)" Dir] k by (simp add: stat_def)
  then show ?thesis by (simp add: is_dir_def)
qed

lemma only_new_dirs_refl: "only_new_dirs fs fs ps"
  by (simp add: only_new_dirs_def)

lemma only_new_dirs_trans:
  assumes "only_new_dirs fs fs1 ps" and "only_new_dirs fs1 fs2 qs" and "set ps \<subseteq> set qs"
  shows "only_new_dirs fs fs2 qs"
  unfolding only_new_dirs_def
proof (intro allI impI)
  fix q
  assume d: "fs2 q \<noteq> fs q"
  show "fs q = None \<and> fs2 q = Some Dir \<and> q \<in> set qs"
  proof (cases "fs1 q = fs q")
    case True
    with d have "fs2 q \<noteq> fs1 q" by simp
    with assms(2) have "fs1 q = None \<and> fs2 q = Some Dir \<and> q \<in> set qs"
      by (simp add: only_new_dirs_def)
    with True show ?thesis by simp
  next
    case False
    with assms(1) have a: "fs q = None" "fs1 q = Some Dir" "q \<in> set ps"
      by (auto simp: only_new_dirs_def)
    from assms(2) a(2) have "fs2 q = Some Dir"
      unfolding only_new_dirs_def by (metis option.distinct(1))
    with a assms(3) show ?thesis by auto
  qed
qed

lemma os_mkdir_Inr:
  assumes "os_mkdir fs p = Inr fs'"
  shows "fs' = fs(p \<mapsto> Dir) \<and> fs p = None \<and> is_dir fs' p"
proof -
  from assms have s: "stat fs p = Inl FileNotFoundError" and d: "is_dir fs (parent p)"
    and f: "fs' = fs(p \<mapsto> Dir)"
    by (auto simp: os_mkdir_def split: sum.splits if_splits)
  from s have ne: "parts p \<noteq> []"
    using stat_root [of p fs] by auto
  from d have sp: "stat fs (parent p) = Inr Dir"
    by (auto simp: is_dir_def split: sum.splits node.splits)
  from s sp have n: "fs p = None"
    using stat_step [OF ne, of fs] by (auto split: option.splits)
  have "only_new_dirs fs fs' [p]"
    using f n by (simp add: only_new_dirs_def)
  from is_dir_kept [OF this d] have "stat fs' (parent p) = Inr Dir"
    by (auto simp: is_dir_def split: sum.splits node.splits)
  then have "is_dir fs' p"
    using stat_step [OF ne, of fs'] f by (simp add: is_dir_def)
  with f n show ?thesis by simp
qed

lemma mkdir_effect:
  "mkdir parents exist_ok fs p = (r, fs') \<Longrightarrow>
     only_new_dirs fs fs' (lineage p) \<and> (r = Inr () \<longrightarrow> is_dir fs' p)"
proof (induction parents exist_ok fs p arbitrary: r fs' rule: mkdir.induct)
  case (1 parents exist_ok fs p)
  show ?case
  proof (cases "os_mkdir fs p")
    case (Inr fs1)
    with "1.prems" have "fs' = fs1" "r = Inr ()"
      by (simp_all add: mkdir.simps [of _ _ fs p])
    moreover from os_mkdir_Inr [OF Inr] have "only_new_dirs fs fs1 (lineage p)"
      using self_in_lineage [of p] by (simp add: only_new_dirs_def)
    moreover from os_mkdir_Inr [OF Inr] have "is_dir fs1 p"
      by blast
    ultimately show ?thesis
      by simp
  next
    case (Inl e)
    show ?thesis
    proof (cases "e = FileNotFoundError")
      case False
      with Inl "1.prems" show ?thesis
        by (auto simp: mkdir.simps [of _ _ fs p] only_new_dirs_refl split: if_splits)
    next
      case True
      show ?thesis
      proof (cases "\<not> parents \<or> parent p = p")
        case True
        with Inl \<open>e = FileNotFoundError\<close> "1.prems" show ?thesis
          by (auto simp: mkdir.simps [of _ _ fs p] only_new_dirs_refl)
      next
        case False
        obtain r1 fs1 where m1: "mkdir True True fs (parent p) = (r1, fs1)"
          by (cases "mkdir True True fs (parent p)") auto
        from "1.IH"(1) [OF Inl True False m1]
        have o1: "only_new_dirs fs fs1 (lineage (parent p))" by simp
        show ?thesis
        proof (cases r1)
          case (Inl e1)
          with m1 \<open>os_mkdir fs p = Inl e\<close> True False "1.prems" have "fs' = fs1" "r = Inl e1"
            by (simp_all add: mkdir.simps [of _ _ fs p])
          with o1 only_new_dirs_trans [OF o1 only_new_dirs_refl parent_lineage] show ?thesis
            by simp
        next
          case (Inr u)
          with m1 \<open>os_mkdir fs p = Inl e\<close> True False "1.prems"
          have m2: "mkdir False exist_ok fs1 p = (r, fs')"
            by (simp add: mkdir.simps [of _ _ fs p])
          from m1 Inr have m1': "(Inr u, fs1) = mkdir True True fs (parent p)" by simp
          from "1.IH"(2) [OF \<open>os_mkdir fs p = Inl e\<close> True False m1' refl m2]
          have o2: "only_new_dirs fs1 fs' (lineage p)" and d: "r = Inr () \<longrightarrow> is_dir fs' p"
            by simp_all
          from only_new_dirs_trans [OF o1 o2 parent_lineage] d show ?thesis
            by simp
        qed
      qed
    qed
  qed
qed

lemma mkdir_parents_exist:
  assumes "mkdir True True fs p = (Inr (), fs1)"
  shows "\<forall>q \<in> set (lineage p). is_dir fs1 q"
  using mkdir_effect [OF assms] is_dir_lineage [of fs1 p] by blast

section \<open>The example, evaluated\<close>

text \<open>
  The example file system holds one file, \<^verbatim>\<open>data.geojson\<close>.  These are the values
  of the single steps on it, for a conversion into the new directory
  \<^verbatim>\<open>out/sub\<close>, for an input that does not exist, and for a destination below the
  regular file.
\<close>

lemma example_destinations:
  "spec_destination (parse_path ''data.geojson'') None = \<lparr>root = [], parts = [''data.shp'']\<rparr>"
  "spec_destination (parse_path ''data.geojson'') (Some (parse_path ''outdir/''))
     = \<lparr>root = [], parts = [''outdir'', ''data.shp'']\<rparr>"
  "spec_destination (parse_path ''data.geojson'') (Some (parse_path ''out.geojson''))
     = \<lparr>root = [], parts = [''out.shp'']\<rparr>"
  "spec_destination (parse_path ''data.geojson'') (Some (parse_path ''maps/Out.SHP''))
     = \<lparr>root = [], parts = [''maps'', ''Out.SHP'']\<rparr>"
  by (simp_all add: spec_destination_def parse_path_def splitroot_def stem_def suffix_def name_def
      lower_def lower_char_def Let_def)

lemma example_stat:
  "stat example_fs \<lparr>root = [], parts = []\<rparr> = Inr Dir"
  "stat example_fs \<lparr>root = [], parts = [''out'']\<rparr> = Inl FileNotFoundError"
  "stat example_fs \<lparr>root = [], parts = [''out'', ''sub'']\<rparr> = Inl FileNotFoundError"
  "stat example_fs \<lparr>root = [], parts = [''data.geojson'']\<rparr> = Inr (File two_polygons)"
  "stat example_fs \<lparr>root = [], parts = [''data.geojson'', ''sub'']\<rparr> = Inl NotADirectoryError"
  "stat example_fs \<lparr>root = [], parts = [''missing.geojson'']\<rparr> = Inl FileNotFoundError"
  by (simp_all add: stat_def example_fs_def)

lemma example_mkdir_out:
  "mkdir True True example_fs \<lparr>root = [], parts = [''out'']\<rparr>
     = (Inr (), example_fs(\<lparr>root = [], parts = [''out'']\<rparr> \<mapsto> Dir))"
  by (subst mkdir.simps) (simp add: os_mkdir_def is_dir_def parent_def example_stat)

lemma example_mkdir_out_sub:
  "mkdir True True example_fs \<lparr>root = [], parts = [''out'', ''sub'']\<rparr>
     = (Inr (), example_fs(\<lparr>root = [], parts = [''out'']\<rparr> \<mapsto> Dir,
                          \<lparr>root = [], parts = [''out'', ''sub'']\<rparr> \<mapsto> Dir))"
proof -
  let ?fs1 = "example_fs(\<lparr>root = [], parts = [''out'']\<rparr> \<mapsto> Dir)"
  have s1: "stat ?fs1 \<lparr>root = [], parts = [''out'']\<rparr> = Inr Dir"
    and s2: "stat ?fs1 \<lparr>root = [], parts = [''out'', ''sub'']\<rparr> = Inl FileNotFoundError"
    by (simp_all add: stat_def example_fs_def)
  have m2: "mkdir False True ?fs1 \<lparr>root = [], parts = [''out'', ''sub'']\<rparr>
      = (Inr (), ?fs1(\<lparr>root = [], parts = [''out'', ''sub'']\<rparr> \<mapsto> Dir))"
    by (subst mkdir.simps) (simp add: os_mkdir_def is_dir_def parent_def s1 s2)
  show ?thesis
    by (subst mkdir.simps)
      (simp add: os_mkdir_def is_dir_def parent_def example_stat example_mkdir_out m2)
qed

lemma example_mkdir_blocked:
  "mkdir True True example_fs \<lparr>root = [], parts = [''data.geojson'', ''sub'']\<rparr>
     = (Inl NotADirectoryError, example_fs)"
  by (subst mkdir.simps) (simp add: os_mkdir_def is_dir_def parent_def example_stat)

lemma example_paths:
  "output_path_of (Str ''data.geojson'') (Some (Str ''out/sub/''))
     = Inr \<lparr>root = [], parts = [''out'', ''sub'', ''data.shp'']\<rparr>"
  "output_path_of (Str ''missing.geojson'') (Some (Str ''out/''))
     = Inr \<lparr>root = [], parts = [''out'', ''missing.shp'']\<rparr>"
  "output_path_of (Str ''missing.geojson'') (Some (Str ''data.geojson/sub/out.shp''))
     = Inr \<lparr>root = [], parts = [''data.geojson'', ''sub'', ''out.shp'']\<rparr>"
  by (simp_all add: output_path_of_def parse_path_def splitroot_def stem_def suffix_def name_def
      truediv_def lower_def lower_char_def Let_def)

lemma example_mkdir_out_sub_fs:
  "mkdir True True example_fs \<lparr>root = [], parts = [''out'', ''sub'']\<rparr> = (Inr (), out_sub_fs)"
  by (simp add: example_mkdir_out_sub out_sub_fs_def)

lemma example_mkdir_cwd:
  "mkdir True True example_fs \<lparr>root = [], parts = []\<rparr> = (Inr (), example_fs)"
  by (subst mkdir.simps) (simp add: os_mkdir_def is_dir_def parent_def example_stat)

lemma out_sub_stat:
  "stat out_sub_fs \<lparr>root = [], parts = [''out'']\<rparr> = Inr Dir"
  "stat out_sub_fs \<lparr>root = [], parts = [''out'', ''sub'']\<rparr> = Inr Dir"
  "stat out_sub_fs \<lparr>root = [], parts = [''out'', ''sub'', ''data.shp'']\<rparr> = Inl FileNotFoundError"
  "stat out_sub_fs \<lparr>root = [], parts = [''data.geojson'']\<rparr> = Inr (File two_polygons)"
  "stat out_sub_fs \<lparr>root = [], parts = [''missing.geojson'']\<rparr> = Inl FileNotFoundError"
  by (simp_all add: stat_def out_sub_fs_def example_fs_def)

lemma example_parse:
  "parse_path ''data.geojson'' = \<lparr>root = [], parts = [''data.geojson'']\<rparr>"
  "parse_path ''missing.geojson'' = \<lparr>root = [], parts = [''missing.geojson'']\<rparr>"
  "parse_path ''Out.SHP'' = \<lparr>root = [], parts = [''Out.SHP'']\<rparr>"
  "parse_path ''.'' = \<lparr>root = [], parts = []\<rparr>"
  by (simp_all add: parse_path_def splitroot_def)

lemma example_reads:
  "read_file example_lib out_sub_fs (PathObj \<lparr>root = [], parts = [''data.geojson'']\<rparr>)
     = Inr two_polygons"
  "read_file example_lib out_sub_fs (PathObj \<lparr>root = [], parts = [''missing.geojson'']\<rparr>)
     = Inl DataSourceError"
  "read_file example_lib example_fs (PathObj \<lparr>root = [], parts = [''data.geojson'']\<rparr>)
     = Inr two_polygons"
  "read_file example_lib example_fs (PathObj \<lparr>root = [], parts = [''missing.geojson'']\<rparr>)
     = Inl DataSourceError"
  by (simp_all add: example_lib_def out_sub_stat example_stat)

lemma example_stat_out:
  "stat example_fs \<lparr>root = [], parts = [''Out.SHP'']\<rparr> = Inl FileNotFoundError"
  by (simp add: stat_def example_fs_def)

lemma example_crs:
  "from_user_input example_lib (CrsInt 4326) = Inr 4326"
  "from_user_input example_lib (CrsStr ''EPSG:4326'') = Inr 4326"
  "from_user_input example_lib (CrsStr ''bogus'') = Inl CRSError"
  by (simp_all add: example_lib_def)

lemma example_write:
  "to_file example_lib labelled_polygons \<lparr>root = [], parts = [''out'', ''sub'', ''data.shp'']\<rparr> out_sub_fs
     = (Inr (), out_sub_fs(\<lparr>root = [], parts = [''out'', ''sub'', ''data.shp'']\<rparr> \<mapsto> File labelled_polygons))"
  "to_file example_lib two_polygons \<lparr>root = [], parts = [''Out.SHP'']\<rparr> example_fs
     = (Inr (), example_fs(\<lparr>root = [], parts = [''Out.SHP'']\<rparr> \<mapsto> File two_polygons))"
  by (simp_all add: example_lib_def is_dir_def parent_def out_sub_stat example_stat example_stat_out)

lemma example_output_paths:
  "output_path_of (Str ''data.geojson'') None = Inr \<lparr>root = [], parts = [''data.shp'']\<rparr>"
  "output_path_of (Str ''data.geojson'') (Some (Str ''outdir/''))
     = Inr \<lparr>root = [], parts = [''outdir'', ''data.shp'']\<rparr>"
  "output_path_of (Str ''data.geojson'') (Some (Str ''out.geojson''))
     = Inr \<lparr>root = [], parts = [''out.shp'']\<rparr>"
  "output_path_of (Str ''data.geojson'') (Some (Str ''Out.SHP''))
     = Inr \<lparr>root = [], parts = [''Out.SHP'']\<rparr>"
  "output_path_of (Str ''missing.geojson'') (Some (Str ''out/sub/''))
     = Inr \<lparr>root = [], parts = [''out'', ''sub'', ''missing.shp'']\<rparr>"
  "output_path_of (Str ''.'') None = Inl ValueError"
  by (simp_all add: output_path_of_def parse_path_def splitroot_def stem_def suffix_def name_def
      truediv_def with_suffix_def lower_def lower_char_def Let_def)

lemma example_parents:
  "parent \<lparr>root = [], parts = [''out'', ''sub'', ''data.shp'']\<rparr> = \<lparr>root = [], parts = [''out'', ''sub'']\<rparr>"
  "parent \<lparr>root = [], parts = [''out'', ''sub'', ''missing.shp'']\<rparr> = \<lparr>root = [], parts = [''out'', ''sub'']\<rparr>"
  "parent \<lparr>root = [], parts = [''data.geojson'', ''sub'', ''out.shp'']\<rparr> = \<lparr>root = [], parts = [''data.geojson'', ''sub'']\<rparr>"
  "parent \<lparr>root = [], parts = [''Out.SHP'']\<rparr> = \<lparr>root = [], parts = []\<rparr>"
  by (simp_all add: parent_def)

lemma example_run:
  "geojson_to_shapefile example_lib example_fs (Str ''data.geojson'') (Some (Str ''out/sub/''))
       (Some (CrsInt 4326))
     = (Inr \<lparr>root = [], parts = [''out'', ''sub'', ''data.shp'']\<rparr>,
        out_sub_fs(\<lparr>root = [], parts = [''out'', ''sub'', ''data.shp'']\<rparr> \<mapsto> File labelled_polygons))"
proof -
  have "apply_force_crs example_lib two_polygons (Some (CrsInt 4326)) = Inr labelled_polygons"
    by (simp add: apply_force_crs_def set_crs_def example_crs two_polygons_def
        labelled_polygons_def)
  then show ?thesis
    by (simp add: geojson_to_shapefile_def example_paths example_parents
        example_mkdir_out_sub_fs example_parse example_reads example_write)
qed

lemma example_apply:
  "apply_force_crs example_lib two_polygons (Some (CrsInt 4326)) = Inr labelled_polygons"
  by (simp add: apply_force_crs_def set_crs_def example_crs two_polygons_def
      labelled_polygons_def)

lemma run_a:
  "output_path_of (Str ''data.geojson'') (Some (Str ''out/sub/''))
     = Inr \<lparr>root = [], parts = [''out'', ''sub'', ''data.shp'']\<rparr>"
  "mkdir True True example_fs (parent \<lparr>root = [], parts = [''out'', ''sub'', ''data.shp'']\<rparr>)
     = (Inr (), out_sub_fs)"
  "read_file example_lib out_sub_fs (PathObj (Path (Str ''data.geojson''))) = Inr two_polygons"
  "apply_force_crs example_lib two_polygons (Some (CrsInt 4326)) = Inr labelled_polygons"
  "to_file example_lib labelled_polygons \<lparr>root = [], parts = [''out'', ''sub'', ''data.shp'']\<rparr>
       out_sub_fs
     = (Inr (), out_sub_fs(\<lparr>root = [], parts = [''out'', ''sub'', ''data.shp'']\<rparr>
          \<mapsto> File labelled_polygons))"
  by (simp_all add: example_paths example_parents example_mkdir_out_sub_fs example_parse
      example_reads example_write example_apply)

lemma run_b:
  "output_path_of (Str ''missing.geojson'') (Some (Str ''out/sub/''))
     = Inr \<lparr>root = [], parts = [''out'', ''sub'', ''missing.shp'']\<rparr>"
  "mkdir True True example_fs (parent \<lparr>root = [], parts = [''out'', ''sub'', ''missing.shp'']\<rparr>)
     = (Inr (), out_sub_fs)"
  "read_file example_lib out_sub_fs (PathObj (Path (Str ''missing.geojson''))) = Inl DataSourceError"
  by (simp_all add: example_output_paths example_parents example_mkdir_out_sub_fs example_parse
      example_reads)

lemma run_blocked:
  "output_path_of (Str ''missing.geojson'') (Some (Str ''data.geojson/sub/out.shp''))
     = Inr \<lparr>root = [], parts = [''data.geojson'', ''sub'', ''out.shp'']\<rparr>"
  "mkdir True True example_fs (parent \<lparr>root = [], parts = [''data.geojson'', ''sub'', ''out.shp'']\<rparr>)
     = (Inl NotADirectoryError, example_fs)"
  by (simp_all add: example_paths example_parents example_mkdir_blocked)

lemma example_dirs:
  "\<not> is_dir example_fs \<lparr>root = [], parts = [''out'']\<rparr>"
  "\<not> is_dir example_fs \<lparr>root = [], parts = [''out'', ''sub'']\<rparr>"
  "\<not> is_dir example_fs \<lparr>root = [], parts = [''data.geojson'', ''sub'']\<rparr>"
  "is_dir out_sub_fs \<lparr>root = [], parts = [''out'']\<rparr>"
  "is_dir out_sub_fs \<lparr>root = [], parts = [''out'', ''sub'']\<rparr>"
  by (simp_all add: is_dir_def example_stat out_sub_stat)

lemma example_lineage:
  "lineage \<lparr>root = [], parts = [''out'', ''sub'']\<rparr>
     = [\<lparr>root = [], parts = []\<rparr>, \<lparr>root = [], parts = [''out'']\<rparr>,
        \<lparr>root = [], parts = [''out'', ''sub'']\<rparr>]"
  by (simp add: lineage_def upt_rec)

lemma example_stat_new:
  "stat example_fs \<lparr>root = [], parts = [''data.shp'']\<rparr> = Inl FileNotFoundError"
  "stat example_fs \<lparr>root = [], parts = [''out.shp'']\<rparr> = Inl FileNotFoundError"
  by (simp_all add: stat_def example_fs_def)

lemma run_none:
  "output_path_of (Str ''data.geojson'') None = Inr \<lparr>root = [], parts = [''data.shp'']\<rparr>"
  "mkdir True True example_fs (parent \<lparr>root = [], parts = [''data.shp'']\<rparr>) = (Inr (), example_fs)"
  "read_file example_lib example_fs (PathObj (Path (Str ''data.geojson''))) = Inr two_polygons"
  "apply_force_crs example_lib two_polygons None = Inr two_polygons"
  "to_file example_lib two_polygons \<lparr>root = [], parts = [''data.shp'']\<rparr> example_fs
     = (Inr (), example_fs(\<lparr>root = [], parts = [''data.shp'']\<rparr> \<mapsto> File two_polygons))"
  by (simp_all add: example_output_paths parent_def example_mkdir_cwd example_parse example_reads
      apply_force_crs_def example_lib_def is_dir_def example_stat example_stat_new
      split: option.splits)

lemma run_ext:
  "output_path_of (Str ''data.geojson'') (Some (Str ''out.geojson''))
     = Inr \<lparr>root = [], parts = [''out.shp'']\<rparr>"
  "mkdir True True example_fs (parent \<lparr>root = [], parts = [''out.shp'']\<rparr>) = (Inr (), example_fs)"
  "to_file example_lib two_polygons \<lparr>root = [], parts = [''out.shp'']\<rparr> example_fs
     = (Inr (), example_fs(\<lparr>root = [], parts = [''out.shp'']\<rparr> \<mapsto> File two_polygons))"
  by (simp_all add: example_output_paths parent_def example_mkdir_cwd
      example_lib_def is_dir_def example_stat example_stat_new)

lemma run_as_is:
  "output_path_of (Str ''data.geojson'') (Some (Str ''Out.SHP''))
     = Inr \<lparr>root = [], parts = [''Out.SHP'']\<rparr>"
  "mkdir True True example_fs (parent \<lparr>root = [], parts = [''Out.SHP'']\<rparr>) = (Inr (), example_fs)"
  "to_file example_lib two_polygons \<lparr>root = [], parts = [''Out.SHP'']\<rparr> example_fs
     = (Inr (), example_fs(\<lparr>root = [], parts = [''Out.SHP'']\<rparr> \<mapsto> File two_polygons))"
  by (simp_all add: example_output_paths parent_def example_mkdir_cwd example_write)

lemma example_suffixes:
  "suffix \<lparr>root = [], parts = [''Out.SHP'']\<rparr> = ''.SHP''"
  "suffix \<lparr>root = [], parts = [''out'', ''.shp'']\<rparr> = []"
  "name \<lparr>root = [], parts = [''out'', ''.shp'']\<rparr> = ''.shp''"
  "suffix (Path (Str ''Out.SHP'')) = ''.SHP''"
  "suffix (Path (Str ''out'')) = []"
  "name (Path (Str ''data.geojson'')) = ''data.geojson''"
  "name (Path (Str ''.'')) = []"
  by (simp_all add: suffix_def name_def example_parse parse_path_def splitroot_def)

lemma run_directory:
  "output_path_of (Str ''.'') (Some (Str ''out''))
     = Inr \<lparr>root = [], parts = [''out'', ''.shp'']\<rparr>"
  "mkdir True True example_fs (parent \<lparr>root = [], parts = [''out'', ''.shp'']\<rparr>)
     = (Inr (), example_fs(\<lparr>root = [], parts = [''out'']\<rparr> \<mapsto> Dir))"
  "read_file directory_lib (example_fs(\<lparr>root = [], parts = [''out'']\<rparr> \<mapsto> Dir))
       (PathObj (Path (Str ''.''))) = Inr two_polygons"
  "apply_force_crs directory_lib two_polygons None = Inr two_polygons"
  "to_file directory_lib two_polygons \<lparr>root = [], parts = [''out'', ''.shp'']\<rparr>
       (example_fs(\<lparr>root = [], parts = [''out'']\<rparr> \<mapsto> Dir))
     = (Inr (), example_fs(\<lparr>root = [], parts = [''out'']\<rparr> \<mapsto> Dir,
                          \<lparr>root = [], parts = [''out'', ''.shp'']\<rparr> \<mapsto> File two_polygons))"
proof -
  show "output_path_of (Str ''.'') (Some (Str ''out''))
      = Inr \<lparr>root = [], parts = [''out'', ''.shp'']\<rparr>"
    by (simp add: output_path_of_def parse_path_def splitroot_def stem_def suffix_def name_def
        truediv_def lower_def Let_def)
  show "mkdir True True example_fs (parent \<lparr>root = [], parts = [''out'', ''.shp'']\<rparr>)
      = (Inr (), example_fs(\<lparr>root = [], parts = [''out'']\<rparr> \<mapsto> Dir))"
    by (simp add: parent_def example_mkdir_out)
  show "read_file directory_lib (example_fs(\<lparr>root = [], parts = [''out'']\<rparr> \<mapsto> Dir))
      (PathObj (Path (Str ''.''))) = Inr two_polygons"
    by (simp add: directory_lib_def example_parse stat_def)
  show "apply_force_crs directory_lib two_polygons None = Inr two_polygons"
    by (simp add: apply_force_crs_def split: option.splits)
  show "to_file directory_lib two_polygons \<lparr>root = [], parts = [''out'', ''.shp'']\<rparr>
      (example_fs(\<lparr>root = [], parts = [''out'']\<rparr> \<mapsto> Dir))
      = (Inr (), example_fs(\<lparr>root = [], parts = [''out'']\<rparr> \<mapsto> Dir,
                           \<lparr>root = [], parts = [''out'', ''.shp'']\<rparr> \<mapsto> File two_polygons))"
    by (simp add: directory_lib_def example_lib_def is_dir_def parent_def stat_def example_fs_def)
qed

section \<open>The converter\<close>

text \<open>
  C5.  The destination of \<open>geojson_to_shapefile\<close> is the one of the
  specification, \<open>spec_destination\<close>: without an output the directory and stem of
  the input with \<^verbatim>\<open>.shp\<close>; an output without extension is a directory that
  receives \<^verbatim>\<open><input-stem>.shp\<close>; another extension is replaced by \<^verbatim>\<open>.shp\<close>; an
  output whose extension is \<^verbatim>\<open>.shp\<close> in any letter case is kept.  The
  resolution fails only when there is no output and the input has no file
  name (\<^verbatim>\<open>with_suffix\<close> raises \<^verbatim>\<open>ValueError\<close>).  A path that the call returns
  is this destination, and when every later step succeeds the call returns
  it.
\<close>

theorem destination_by_cases:
  assumes "wf_pathlike geojson_path"
  shows "(shapefile_path \<noteq> None \<or> name (Path geojson_path) \<noteq> [] \<longrightarrow>
        output_path_of geojson_path shapefile_path
          = Inr (spec_destination (Path geojson_path) (map_option Path shapefile_path)))
   \<and> (shapefile_path = None \<and> name (Path geojson_path) = [] \<longrightarrow>
        output_path_of geojson_path shapefile_path = Inl ValueError)
   \<and> (\<forall>lib fs force p fs'.
        geojson_to_shapefile lib fs geojson_path shapefile_path force = (Inr p, fs') \<longrightarrow>
        p = spec_destination (Path geojson_path) (map_option Path shapefile_path))
   \<and> (\<forall>lib fs force dest fs1 df df' fs2.
        output_path_of geojson_path shapefile_path = Inr dest \<longrightarrow>
        mkdir True True fs (parent dest) = (Inr (), fs1) \<longrightarrow>
        read_file lib fs1 (PathObj (Path geojson_path)) = Inr df \<longrightarrow>
        apply_force_crs lib df force = Inr df' \<longrightarrow>
        to_file lib df' dest fs1 = (Inr (), fs2) \<longrightarrow>
        geojson_to_shapefile lib fs geojson_path shapefile_path force = (Inr dest, fs2))"
proof (intro conjI allI impI)
  assume "shapefile_path \<noteq> None \<or> name (Path geojson_path) \<noteq> []"
  then show "output_path_of geojson_path shapefile_path
      = Inr (spec_destination (Path geojson_path) (map_option Path shapefile_path))"
    by (auto simp: output_path_of_spec [OF assms])
next
  assume "shapefile_path = None \<and> name (Path geojson_path) = []"
  then show "output_path_of geojson_path shapefile_path = Inl ValueError"
    by (simp add: output_path_of_spec [OF assms])
next
  fix lib :: "('a, 'b, 'c) geolib" and fs force p fs'
  assume "geojson_to_shapefile lib fs geojson_path shapefile_path force = (Inr p, fs')"
  then have "output_path_of geojson_path shapefile_path = Inr p"
    by (rule geojson_to_shapefile_returns)
  then show "p = spec_destination (Path geojson_path) (map_option Path shapefile_path)"
    by (simp add: output_path_of_spec [OF assms] split: if_splits)
next
  fix lib :: "('d, 'e, 'f) geolib" and fs force dest fs1 df df' fs2
  assume "output_path_of geojson_path shapefile_path = Inr dest"
    and "mkdir True True fs (parent dest) = (Inr (), fs1)"
    and "read_file lib fs1 (PathObj (Path geojson_path)) = Inr df"
    and "apply_force_crs lib df force = Inr df'"
    and "to_file lib df' dest fs1 = (Inr (), fs2)"
  then show "geojson_to_shapefile lib fs geojson_path shapefile_path force = (Inr dest, fs2)"
    by (simp add: geojson_to_shapefile_def)
qed

theorem destination_by_cases_witness:
  "wf_pathlike (Str ''data.geojson'')
   \<and> output_path_of (Str ''data.geojson'') None = Inr \<lparr>root = [], parts = [''data.shp'']\<rparr>
   \<and> output_path_of (Str ''data.geojson'') (Some (Str ''outdir/''))
       = Inr \<lparr>root = [], parts = [''outdir'', ''data.shp'']\<rparr>
   \<and> output_path_of (Str ''data.geojson'') (Some (Str ''out.geojson''))
       = Inr \<lparr>root = [], parts = [''out.shp'']\<rparr>
   \<and> output_path_of (Str ''data.geojson'') (Some (Str ''maps/Out.SHP''))
       = Inr \<lparr>root = [], parts = [''maps'', ''Out.SHP'']\<rparr>
   \<and> wf_pathlike (PathObj \<lparr>root = ''/'', parts = [''data'', ''in.geojson'']\<rparr>)
   \<and> output_path_of (PathObj \<lparr>root = ''/'', parts = [''data'', ''in.geojson'']\<rparr>) None
       = Inr \<lparr>root = ''/'', parts = [''data'', ''in.shp'']\<rparr>
   \<and> wf_pathlike (Str ''.'')
   \<and> output_path_of (Str ''.'') None = Inl ValueError
   \<and> geojson_to_shapefile example_lib example_fs (Str ''data.geojson'') (Some (Str ''out/sub/''))
         (Some (CrsInt 4326))
       = (Inr \<lparr>root = [], parts = [''out'', ''sub'', ''data.shp'']\<rparr>,
          out_sub_fs(\<lparr>root = [], parts = [''out'', ''sub'', ''data.shp'']\<rparr>
            \<mapsto> File labelled_polygons))"
proof -
  have w: "wf_pathlike (Str ''data.geojson'')" and w': "wf_pathlike (Str ''.'')"
    by simp_all
  have n: "name (Path (Str ''data.geojson'')) \<noteq> []"
    and n': "name (Path (Str ''.'')) = []"
    by (simp_all add: example_parse name_def)
  note d = destination_by_cases [OF w]
  from d [of None] n have 1: "output_path_of (Str ''data.geojson'') None
      = Inr \<lparr>root = [], parts = [''data.shp'']\<rparr>"
    by (auto simp: example_destinations)
  from d [of "Some (Str ''outdir/'')"]
  have 2: "output_path_of (Str ''data.geojson'') (Some (Str ''outdir/''))
      = Inr \<lparr>root = [], parts = [''outdir'', ''data.shp'']\<rparr>"
    by (auto simp: example_destinations)
  from d [of "Some (Str ''out.geojson'')"]
  have 3: "output_path_of (Str ''data.geojson'') (Some (Str ''out.geojson''))
      = Inr \<lparr>root = [], parts = [''out.shp'']\<rparr>"
    by (auto simp: example_destinations)
  from d [of "Some (Str ''maps/Out.SHP'')"]
  have 4: "output_path_of (Str ''data.geojson'') (Some (Str ''maps/Out.SHP''))
      = Inr \<lparr>root = [], parts = [''maps'', ''Out.SHP'']\<rparr>"
    by (auto simp: example_destinations)
  from destination_by_cases [OF w', of None] n'
  have 5: "output_path_of (Str ''.'') None = Inl ValueError"
    by auto
  have 6: "geojson_to_shapefile example_lib example_fs (Str ''data.geojson'')
        (Some (Str ''out/sub/'')) (Some (CrsInt 4326))
      = (Inr \<lparr>root = [], parts = [''out'', ''sub'', ''data.shp'']\<rparr>,
         out_sub_fs(\<lparr>root = [], parts = [''out'', ''sub'', ''data.shp'']\<rparr>
           \<mapsto> File labelled_polygons))"
    by (rule d [of "Some (Str ''out/sub/'')", THEN conjunct2, THEN conjunct2, THEN conjunct2,
          rule_format, OF run_a])
  let ?i = "PathObj \<lparr>root = ''/'', parts = [''data'', ''in.geojson'']\<rparr>"
  have v: "wf_pathlike ?i"
    by (simp add: wf_path_def)
  have m: "name (Path ?i) \<noteq> []"
    by (simp add: name_def)
  from destination_by_cases [OF v, of None] m
  have 7: "output_path_of ?i None = Inr \<lparr>root = ''/'', parts = [''data'', ''in.shp'']\<rparr>"
    by (auto simp: spec_destination_def stem_def name_def Let_def)
  from w w' v 1 2 3 4 5 6 7 show ?thesis
    by simp
qed

text \<open>
  C9.  The extension of a path is what the code tests on lines 58 and 61: its
  \<open>suffix\<close> in the sense of pathlib.  A destination is resolved whenever there
  is an output or the input has a file name.  Its suffix is \<^verbatim>\<open>.shp\<close> up to
  letter case, with one exception: for an input without a file name (such as
  \<^verbatim>\<open>.\<close>) and an output without suffix the destination is the file \<^verbatim>\<open>.shp\<close> in
  that directory, whose suffix is empty.  An output whose suffix is \<^verbatim>\<open>.shp\<close> in
  any letter case is the destination as it is, with its suffix as written.
  The call returns the destination when every later step succeeds, and it
  returns no other path.
\<close>

theorem returned_path_suffix:
  assumes "wf_pathlike geojson_path"
  shows "(shapefile_path \<noteq> None \<or> name (Path geojson_path) \<noteq> [] \<longrightarrow>
        (\<exists>dest. output_path_of geojson_path shapefile_path = Inr dest))
   \<and> (\<forall>dest. output_path_of geojson_path shapefile_path = Inr dest \<longrightarrow>
        lower (suffix dest)
          = (if name (Path geojson_path) = []
                \<and> (\<exists>c. shapefile_path = Some c \<and> suffix (Path c) = [])
             then [] else ''.shp'')
        \<and> (\<forall>c. shapefile_path = Some c \<longrightarrow> lower (suffix (Path c)) = ''.shp'' \<longrightarrow>
              dest = Path c \<and> suffix dest = suffix (Path c)))
   \<and> (\<forall>lib fs force dest fs1 df df' fs2.
        output_path_of geojson_path shapefile_path = Inr dest \<longrightarrow>
        mkdir True True fs (parent dest) = (Inr (), fs1) \<longrightarrow>
        read_file lib fs1 (PathObj (Path geojson_path)) = Inr df \<longrightarrow>
        apply_force_crs lib df force = Inr df' \<longrightarrow>
        to_file lib df' dest fs1 = (Inr (), fs2) \<longrightarrow>
        geojson_to_shapefile lib fs geojson_path shapefile_path force = (Inr dest, fs2))
   \<and> (\<forall>lib fs force p fs'.
        geojson_to_shapefile lib fs geojson_path shapefile_path force = (Inr p, fs') \<longrightarrow>
        output_path_of geojson_path shapefile_path = Inr p)"
proof (intro conjI allI impI)
  assume "shapefile_path \<noteq> None \<or> name (Path geojson_path) \<noteq> []"
  then show "\<exists>dest. output_path_of geojson_path shapefile_path = Inr dest"
    by (auto simp: output_path_of_spec [OF assms])
next
  fix lib :: "('a, 'b, 'c) geolib" and fs force dest fs1 df df' fs2
  assume "output_path_of geojson_path shapefile_path = Inr dest"
    and "mkdir True True fs (parent dest) = (Inr (), fs1)"
    and "read_file lib fs1 (PathObj (Path geojson_path)) = Inr df"
    and "apply_force_crs lib df force = Inr df'"
    and "to_file lib df' dest fs1 = (Inr (), fs2)"
  then show "geojson_to_shapefile lib fs geojson_path shapefile_path force = (Inr dest, fs2)"
    by (simp add: geojson_to_shapefile_def)
next
  fix lib :: "('d, 'e, 'f) geolib" and fs force p fs'
  assume "geojson_to_shapefile lib fs geojson_path shapefile_path force = (Inr p, fs')"
  then show "output_path_of geojson_path shapefile_path = Inr p"
    by (rule geojson_to_shapefile_returns)
next
  fix dest c
  assume o: "output_path_of geojson_path shapefile_path = Inr dest"
    and s: "shapefile_path = Some c" and l: "lower (suffix (Path c)) = ''.shp''"
  from l have "suffix (Path c) \<noteq> []"
    by (auto simp: lower_def)
  with o s l have "dest = Path c"
    by (simp add: output_path_of_def Let_def lower_empty)
  then show "dest = Path c" and "suffix dest = suffix (Path c)"
    by simp_all
next
  fix dest
  let ?i = "Path geojson_path"
  assume o: "output_path_of geojson_path shapefile_path = Inr dest"
  have shp: "lower ''.shp'' = ''.shp''"
    by (simp add: lower_def lower_char_def)
  have made: "lower (suffix dest) = (if st = [] then [] else ''.shp'')"
    if "name dest = st @ ''.shp''" for st
    using suffix_of_shp_name [OF that] shp by (simp add: lower_def)
  show "lower (suffix dest)
      = (if name ?i = [] \<and> (\<exists>c. shapefile_path = Some c \<and> suffix (Path c) = [])
         then [] else ''.shp'')"
  proof (cases shapefile_path)
    case None
    with o have n: "name ?i \<noteq> []"
      and p: "dest = \<lparr>root = root ?i, parts = butlast (parts ?i) @ [stem ?i @ ''.shp'']\<rparr>"
      by (auto simp: output_path_of_spec [OF assms] spec_destination_def split: if_splits)
    from p have "name dest = stem ?i @ ''.shp''"
      by (simp add: name_def)
    from made [OF this] n None show ?thesis
      by (simp add: stem_empty_iff)
  next
    case (Some sp)
    let ?c = "Path sp"
    from o Some have p: "dest = spec_destination ?i (Some ?c)"
      by (simp add: output_path_of_spec [OF assms])
    show ?thesis
    proof (cases "suffix ?c = []")
      case True
      with p have "name dest = stem ?i @ ''.shp''"
        by (simp add: spec_destination_def name_def)
      from made [OF this] True Some show ?thesis
        by (simp add: stem_empty_iff)
    next
      case False
      show ?thesis
      proof (cases "lower (suffix ?c) = ''.shp''")
        case True
        with p False have "dest = ?c"
          by (simp add: spec_destination_def)
        with True False Some show ?thesis
          by simp
      next
        case ns: False
        with p False have "name dest = stem ?c @ ''.shp''"
          by (simp add: spec_destination_def name_def)
        moreover have "stem ?c \<noteq> []"
          using suffix_nonempty_name [OF False] by (simp add: stem_empty_iff)
        ultimately show ?thesis
          using made [of "stem ?c"] False Some by simp
      qed
    qed
  qed
qed

text \<open>
  The suffix of a returned path is not always \<^verbatim>\<open>.shp\<close>: with a reader that
  takes the current directory as a dataset, the input \<^verbatim>\<open>.\<close> and the output
  \<^verbatim>\<open>out\<close>, the call returns \<^verbatim>\<open>out/.shp\<close>, whose suffix is empty.
\<close>

theorem returned_path_suffix_counterexample:
  "wf_pathlike (Str ''.'')
   \<and> geojson_to_shapefile directory_lib example_fs (Str ''.'') (Some (Str ''out'')) None
       = (Inr \<lparr>root = [], parts = [''out'', ''.shp'']\<rparr>,
          example_fs(\<lparr>root = [], parts = [''out'']\<rparr> \<mapsto> Dir,
                     \<lparr>root = [], parts = [''out'', ''.shp'']\<rparr> \<mapsto> File two_polygons))
   \<and> suffix \<lparr>root = [], parts = [''out'', ''.shp'']\<rparr> = []
   \<and> lower (suffix \<lparr>root = [], parts = [''out'', ''.shp'']\<rparr>) \<noteq> ''.shp''"
  by (simp add: geojson_to_shapefile_def run_directory [simplified] example_suffixes lower_def)

theorem returned_path_suffix_witness:
  "wf_pathlike (Str ''data.geojson'')
   \<and> geojson_to_shapefile example_lib example_fs (Str ''data.geojson'') None None
       = (Inr \<lparr>root = [], parts = [''data.shp'']\<rparr>,
          example_fs(\<lparr>root = [], parts = [''data.shp'']\<rparr> \<mapsto> File two_polygons))
   \<and> lower (suffix \<lparr>root = [], parts = [''data.shp'']\<rparr>) = ''.shp''
   \<and> geojson_to_shapefile example_lib example_fs (Str ''data.geojson'') (Some (Str ''out/sub/''))
         (Some (CrsInt 4326))
       = (Inr \<lparr>root = [], parts = [''out'', ''sub'', ''data.shp'']\<rparr>,
          out_sub_fs(\<lparr>root = [], parts = [''out'', ''sub'', ''data.shp'']\<rparr>
            \<mapsto> File labelled_polygons))
   \<and> lower (suffix \<lparr>root = [], parts = [''out'', ''sub'', ''data.shp'']\<rparr>) = ''.shp''
   \<and> geojson_to_shapefile example_lib example_fs (Str ''data.geojson'')
         (Some (Str ''out.geojson'')) None
       = (Inr \<lparr>root = [], parts = [''out.shp'']\<rparr>,
          example_fs(\<lparr>root = [], parts = [''out.shp'']\<rparr> \<mapsto> File two_polygons))
   \<and> lower (suffix \<lparr>root = [], parts = [''out.shp'']\<rparr>) = ''.shp''
   \<and> geojson_to_shapefile example_lib example_fs (Str ''data.geojson'') (Some (Str ''Out.SHP'')) None
       = (Inr \<lparr>root = [], parts = [''Out.SHP'']\<rparr>,
          example_fs(\<lparr>root = [], parts = [''Out.SHP'']\<rparr> \<mapsto> File two_polygons))
   \<and> lower (suffix \<lparr>root = [], parts = [''Out.SHP'']\<rparr>) = ''.shp''
   \<and> suffix \<lparr>root = [], parts = [''Out.SHP'']\<rparr> = ''.SHP''
   \<and> wf_pathlike (Str ''.'')
   \<and> output_path_of (Str ''.'') (Some (Str ''out''))
       = Inr \<lparr>root = [], parts = [''out'', ''.shp'']\<rparr>
   \<and> lower (suffix \<lparr>root = [], parts = [''out'', ''.shp'']\<rparr>) = []"
proof -
  have w: "wf_pathlike (Str ''data.geojson'')" and w': "wf_pathlike (Str ''.'')"
    by simp_all
  have n: "name (Path (Str ''data.geojson'')) \<noteq> []"
    by (simp add: example_parse name_def)
  note run = returned_path_suffix [OF w, THEN conjunct2, THEN conjunct2, THEN conjunct1,
      rule_format]
  note suf = returned_path_suffix [OF w, THEN conjunct2, THEN conjunct1, rule_format,
      THEN conjunct1]
  note kept = returned_path_suffix [OF w, THEN conjunct2, THEN conjunct1, rule_format,
      THEN conjunct2, rule_format]
  have r1: "geojson_to_shapefile example_lib example_fs (Str ''data.geojson'') None None
      = (Inr \<lparr>root = [], parts = [''data.shp'']\<rparr>,
         example_fs(\<lparr>root = [], parts = [''data.shp'']\<rparr> \<mapsto> File two_polygons))"
    by (rule run [OF run_none])
  have s1: "lower (suffix \<lparr>root = [], parts = [''data.shp'']\<rparr>) = ''.shp''"
    using suf [OF run_none(1)] n by simp
  have r2: "geojson_to_shapefile example_lib example_fs (Str ''data.geojson'')
        (Some (Str ''out/sub/'')) (Some (CrsInt 4326))
      = (Inr \<lparr>root = [], parts = [''out'', ''sub'', ''data.shp'']\<rparr>,
         out_sub_fs(\<lparr>root = [], parts = [''out'', ''sub'', ''data.shp'']\<rparr>
           \<mapsto> File labelled_polygons))"
    by (rule run [OF run_a])
  have s2: "lower (suffix \<lparr>root = [], parts = [''out'', ''sub'', ''data.shp'']\<rparr>) = ''.shp''"
    using suf [OF run_a(1)] n by simp
  have r3: "geojson_to_shapefile example_lib example_fs (Str ''data.geojson'')
        (Some (Str ''out.geojson'')) None
      = (Inr \<lparr>root = [], parts = [''out.shp'']\<rparr>,
         example_fs(\<lparr>root = [], parts = [''out.shp'']\<rparr> \<mapsto> File two_polygons))"
    by (rule run [OF run_ext(1) run_ext(2) run_none(3) run_none(4) run_ext(3)])
  have s3: "lower (suffix \<lparr>root = [], parts = [''out.shp'']\<rparr>) = ''.shp''"
    using suf [OF run_ext(1)] n by simp
  have r4: "geojson_to_shapefile example_lib example_fs (Str ''data.geojson'')
        (Some (Str ''Out.SHP'')) None
      = (Inr \<lparr>root = [], parts = [''Out.SHP'']\<rparr>,
         example_fs(\<lparr>root = [], parts = [''Out.SHP'']\<rparr> \<mapsto> File two_polygons))"
    by (rule run [OF run_as_is(1) run_as_is(2) run_none(3) run_none(4) run_as_is(3)])
  have s4: "lower (suffix \<lparr>root = [], parts = [''Out.SHP'']\<rparr>) = ''.shp''"
    using suf [OF run_as_is(1)] n by simp
  have l: "lower (suffix (Path (Str ''Out.SHP''))) = ''.shp''"
    by (simp add: example_parse suffix_def name_def lower_def lower_char_def)
  from kept [OF run_as_is(1) refl l]
  have k: "suffix \<lparr>root = [], parts = [''Out.SHP'']\<rparr> = ''.SHP''"
    by (simp add: example_suffixes)
  have s5: "lower (suffix \<lparr>root = [], parts = [''out'', ''.shp'']\<rparr>) = []"
    using returned_path_suffix [OF w', THEN conjunct2, THEN conjunct1, rule_format,
        THEN conjunct1, OF run_directory(1)]
    by (simp add: parse_path_def splitroot_def name_def suffix_def lower_def)
  from w r1 s1 r2 s2 r3 s3 r4 s4 k w' run_directory(1) s5 show ?thesis
    by simp
qed

text \<open>
  C6.  Once the destination is resolved, \<open>geojson_to_shapefile\<close> runs
  \<^verbatim>\<open>mkdir(parents=True, exist_ok=True)\<close> on its parent.  This step only adds
  directories, and only among the parent and its ancestors; when it does not
  raise (in particular whenever the call returns a path), the parent and all
  its ancestors are directories afterwards.  The file system the call leaves
  behind is either the one after this step or what \<open>to_file\<close> makes of it; when
  the destination cannot be resolved, nothing changes.
\<close>

theorem parents_created_only_mutation:
  assumes "geojson_to_shapefile lib fs geojson_path shapefile_path force = (r, fs_final)"
  shows "(\<forall>e. output_path_of geojson_path shapefile_path = Inl e \<longrightarrow> fs_final = fs)
   \<and> (\<forall>dest. output_path_of geojson_path shapefile_path = Inr dest \<longrightarrow>
        (\<exists>m fs1. mkdir True True fs (parent dest) = (m, fs1)
           \<and> only_new_dirs fs fs1 (lineage (parent dest))
           \<and> (m = Inr () \<longrightarrow> (\<forall>q \<in> set (lineage (parent dest)). is_dir fs1 q))
           \<and> (fs_final = fs1 \<or> (\<exists>df. fs_final = snd (to_file lib df dest fs1)))
           \<and> ((\<exists>p. r = Inr p) \<longrightarrow> m = Inr ())))"
proof (intro conjI allI impI)
  fix e
  assume "output_path_of geojson_path shapefile_path = Inl e"
  with assms show "fs_final = fs"
    by (simp add: geojson_to_shapefile_def)
next
  fix dest
  assume d: "output_path_of geojson_path shapefile_path = Inr dest"
  obtain m fs1 where m: "mkdir True True fs (parent dest) = (m, fs1)"
    by (cases "mkdir True True fs (parent dest)") auto
  from mkdir_effect [OF m] have o: "only_new_dirs fs fs1 (lineage (parent dest))"
    by simp
  have l: "m = Inr () \<longrightarrow> (\<forall>q \<in> set (lineage (parent dest)). is_dir fs1 q)"
    using m mkdir_parents_exist [of fs "parent dest" fs1] by blast
  have f: "fs_final = fs1 \<or> (\<exists>df. fs_final = snd (to_file lib df dest fs1))"
    using assms d m
    by (auto simp: geojson_to_shapefile_def split: sum.splits prod.splits) (metis snd_conv)+
  have s: "(\<exists>p. r = Inr p) \<longrightarrow> m = Inr ()"
    using assms d m
    by (auto simp: geojson_to_shapefile_def split: sum.splits prod.splits)
  from m o l f s
  show "\<exists>m fs1. mkdir True True fs (parent dest) = (m, fs1)
      \<and> only_new_dirs fs fs1 (lineage (parent dest))
      \<and> (m = Inr () \<longrightarrow> (\<forall>q \<in> set (lineage (parent dest)). is_dir fs1 q))
      \<and> (fs_final = fs1 \<or> (\<exists>df. fs_final = snd (to_file lib df dest fs1)))
      \<and> ((\<exists>p. r = Inr p) \<longrightarrow> m = Inr ())"
    by blast
qed

theorem parents_created_only_mutation_witness:
  "geojson_to_shapefile example_lib example_fs (Str ''data.geojson'') (Some (Str ''out/sub/''))
       (Some (CrsInt 4326))
     = (Inr \<lparr>root = [], parts = [''out'', ''sub'', ''data.shp'']\<rparr>,
        out_sub_fs(\<lparr>root = [], parts = [''out'', ''sub'', ''data.shp'']\<rparr>
          \<mapsto> File labelled_polygons))
   \<and> \<not> is_dir example_fs \<lparr>root = [], parts = [''out'']\<rparr>
   \<and> \<not> is_dir example_fs \<lparr>root = [], parts = [''out'', ''sub'']\<rparr>
   \<and> only_new_dirs example_fs out_sub_fs (lineage \<lparr>root = [], parts = [''out'', ''sub'']\<rparr>)
   \<and> is_dir out_sub_fs \<lparr>root = [], parts = [''out'']\<rparr>
   \<and> is_dir out_sub_fs \<lparr>root = [], parts = [''out'', ''sub'']\<rparr>"
proof -
  let ?dest = "\<lparr>root = [], parts = [''out'', ''sub'', ''data.shp'']\<rparr>"
  let ?dir = "\<lparr>root = [], parts = [''out'', ''sub'']\<rparr>"
  have p: "parent ?dest = ?dir"
    by (simp add: parent_def)
  from parents_created_only_mutation [OF example_run] run_a(1)
  obtain m fs1 where m: "mkdir True True example_fs (parent ?dest) = (m, fs1)"
    and o: "only_new_dirs example_fs fs1 (lineage (parent ?dest))"
    and d: "m = Inr () \<longrightarrow> (\<forall>q \<in> set (lineage (parent ?dest)). is_dir fs1 q)"
    by blast
  from m run_a(2) have e: "m = Inr ()" "fs1 = out_sub_fs"
    by simp_all
  from o e p have 1: "only_new_dirs example_fs out_sub_fs (lineage ?dir)"
    by simp
  from d e p have "\<forall>q \<in> set (lineage ?dir). is_dir out_sub_fs q"
    by simp
  then have 2: "is_dir out_sub_fs \<lparr>root = [], parts = [''out'']\<rparr>"
    and 3: "is_dir out_sub_fs ?dir"
    by (simp_all add: example_lineage)
  from example_run example_dirs(1,2) 1 2 3 show ?thesis
    by simp
qed

text \<open>
  C10.  The directories are created before the input is read.  When the
  destination is resolved, the creation of the directories succeeds and
  reading the input fails, the call raises the error of the reader and leaves
  the file system with the parent of the destination and all its ancestors as
  directories; nothing is undone.
\<close>

theorem read_failure_leaves_directories:
  assumes "output_path_of geojson_path shapefile_path = Inr dest"
    and "mkdir True True fs (parent dest) = (Inr (), fs1)"
    and "read_file lib fs1 (PathObj (Path geojson_path)) = Inl e"
  shows "geojson_to_shapefile lib fs geojson_path shapefile_path force = (Inl (Raised e), fs1)
   \<and> (\<forall>q \<in> set (lineage (parent dest)). is_dir fs1 q)
   \<and> only_new_dirs fs fs1 (lineage (parent dest))"
  using assms mkdir_parents_exist [OF assms(2)] mkdir_effect [OF assms(2)]
  by (simp add: geojson_to_shapefile_def)

text \<open>
  Without the success of \<^verbatim>\<open>mkdir\<close> the directories need not be there: with the
  destination \<^verbatim>\<open>data.geojson/sub/out.shp\<close>, below a regular file, and an input
  that does not exist, the call raises \<^verbatim>\<open>NotADirectoryError\<close> from \<^verbatim>\<open>mkdir\<close>,
  and \<^verbatim>\<open>data.geojson/sub\<close> is not a directory afterwards.
\<close>

theorem read_failure_counterexample:
  "output_path_of (Str ''missing.geojson'') (Some (Str ''data.geojson/sub/out.shp''))
     = Inr \<lparr>root = [], parts = [''data.geojson'', ''sub'', ''out.shp'']\<rparr>
   \<and> parent \<lparr>root = [], parts = [''data.geojson'', ''sub'', ''out.shp'']\<rparr>
       = \<lparr>root = [], parts = [''data.geojson'', ''sub'']\<rparr>
   \<and> read_file example_lib example_fs (PathObj (Path (Str ''missing.geojson'')))
       = Inl DataSourceError
   \<and> geojson_to_shapefile example_lib example_fs (Str ''missing.geojson'')
         (Some (Str ''data.geojson/sub/out.shp'')) None
       = (Inl (Raised NotADirectoryError), example_fs)
   \<and> \<not> is_dir example_fs \<lparr>root = [], parts = [''data.geojson'', ''sub'']\<rparr>"
  by (simp add: geojson_to_shapefile_def run_blocked(1) example_parents example_mkdir_blocked
      example_parse example_reads example_dirs)

theorem read_failure_leaves_directories_witness:
  "output_path_of (Str ''missing.geojson'') (Some (Str ''out/sub/''))
     = Inr \<lparr>root = [], parts = [''out'', ''sub'', ''missing.shp'']\<rparr>
   \<and> mkdir True True example_fs (parent \<lparr>root = [], parts = [''out'', ''sub'', ''missing.shp'']\<rparr>)
       = (Inr (), out_sub_fs)
   \<and> read_file example_lib out_sub_fs (PathObj (Path (Str ''missing.geojson'')))
       = Inl DataSourceError
   \<and> geojson_to_shapefile example_lib example_fs (Str ''missing.geojson'')
         (Some (Str ''out/sub/'')) None
       = (Inl (Raised DataSourceError), out_sub_fs)
   \<and> \<not> is_dir example_fs \<lparr>root = [], parts = [''out'', ''sub'']\<rparr>
   \<and> is_dir out_sub_fs \<lparr>root = [], parts = [''out'', ''sub'']\<rparr>"
proof -
  let ?dir = "\<lparr>root = [], parts = [''out'', ''sub'']\<rparr>"
  have p: "parent \<lparr>root = [], parts = [''out'', ''sub'', ''missing.shp'']\<rparr> = ?dir"
    by (simp add: parent_def)
  note r = read_failure_leaves_directories [OF run_b, of None]
  from r have 1: "geojson_to_shapefile example_lib example_fs (Str ''missing.geojson'')
        (Some (Str ''out/sub/'')) None = (Inl (Raised DataSourceError), out_sub_fs)"
    by blast
  from r p have "\<forall>q \<in> set (lineage ?dir). is_dir out_sub_fs q"
    by simp
  then have 2: "is_dir out_sub_fs ?dir"
    by (simp add: example_lineage)
  from run_b 1 2 example_dirs(2) show ?thesis
    by simp
qed

text \<open>
  C7.  The override is assigned exactly when the dataset has no reference
  system and \<^verbatim>\<open>force_crs\<close> is given: then the dataset written is the one read
  with the reference system set to what the override denotes.  When the
  dataset has a reference system, or no override is given, the dataset is
  written as it was read.  In every case the geometries written are the
  geometries read: nothing is reprojected.
\<close>

theorem force_crs_only_labels:
  "(\<forall>spec c. crs df = None \<longrightarrow> force = Some spec \<longrightarrow> from_user_input lib spec = Inr c \<longrightarrow>
        apply_force_crs lib df force = Inr (df\<lparr>crs := Some c\<rparr>))
   \<and> (crs df \<noteq> None \<or> force = None \<longrightarrow> apply_force_crs lib df force = Inr df)
   \<and> (\<forall>df'. apply_force_crs lib df force = Inr df' \<longrightarrow> geometry df' = geometry df)
   \<and> (\<forall>fs geojson_path shapefile_path dest fs1 df'.
        output_path_of geojson_path shapefile_path = Inr dest \<longrightarrow>
        mkdir True True fs (parent dest) = (Inr (), fs1) \<longrightarrow>
        read_file lib fs1 (PathObj (Path geojson_path)) = Inr df \<longrightarrow>
        apply_force_crs lib df force = Inr df' \<longrightarrow>
        geojson_to_shapefile lib fs geojson_path shapefile_path force
          = (case to_file lib df' dest fs1 of
               (Inl e, fs2) \<Rightarrow> (Inl (Raised e), fs2)
             | (Inr u, fs2) \<Rightarrow> (Inr dest, fs2)))"
proof (intro conjI allI impI)
  fix df'
  assume "apply_force_crs lib df force = Inr df'"
  then show "geometry df' = geometry df"
    by (auto simp: apply_force_crs_def set_crs_def split: option.splits sum.splits if_splits)
next
  assume "crs df \<noteq> None \<or> force = None"
  then show "apply_force_crs lib df force = Inr df"
    by (auto simp: apply_force_crs_def split: option.splits)
qed (simp_all add: geojson_to_shapefile_def apply_force_crs_def set_crs_def)

theorem force_crs_only_labels_witness:
  "crs two_polygons = None
   \<and> from_user_input example_lib (CrsStr ''EPSG:4326'') = Inr 4326
   \<and> apply_force_crs example_lib two_polygons (Some (CrsStr ''EPSG:4326''))
       = Inr (two_polygons\<lparr>crs := Some 4326\<rparr>)
   \<and> geometry (two_polygons\<lparr>crs := Some 4326\<rparr>) = geometry two_polygons
   \<and> crs labelled_polygons = Some 4326
   \<and> apply_force_crs example_lib labelled_polygons (Some (CrsInt 3857)) = Inr labelled_polygons
   \<and> apply_force_crs example_lib two_polygons None = Inr two_polygons"
proof -
  have c: "crs two_polygons = None" and c': "crs labelled_polygons = Some 4326"
    by (simp_all add: two_polygons_def labelled_polygons_def)
  have 1: "apply_force_crs example_lib two_polygons (Some (CrsStr ''EPSG:4326''))
      = Inr (two_polygons\<lparr>crs := Some 4326\<rparr>)"
    by (rule force_crs_only_labels [where df = two_polygons and lib = example_lib
          and force = "Some (CrsStr ''EPSG:4326'')", THEN conjunct1, rule_format,
          OF c refl example_crs(2)])
  from force_crs_only_labels [where df = two_polygons and lib = example_lib
      and force = "Some (CrsStr ''EPSG:4326'')"] 1
  have 2: "geometry (two_polygons\<lparr>crs := Some 4326\<rparr>) = geometry two_polygons"
    by blast
  from force_crs_only_labels [where df = labelled_polygons and lib = example_lib
      and force = "Some (CrsInt 3857)"] c'
  have 3: "apply_force_crs example_lib labelled_polygons (Some (CrsInt 3857))
      = Inr labelled_polygons"
    by simp
  from force_crs_only_labels [where df = two_polygons and lib = example_lib and force = None]
  have 4: "apply_force_crs example_lib two_polygons None = Inr two_polygons"
    by simp
  from c example_crs(2) 1 2 c' 3 4 show ?thesis
    by simp
qed

text \<open>
  C8.  \<open>geojson_to_shapefile\<close> wraps nothing.  An error of the destination
  (\<^verbatim>\<open>ValueError\<close>), of \<^verbatim>\<open>mkdir\<close>, of the reader, of an invalid reference
  system or of the writer leaves the call as it was raised, and no error of the
  call is a \<open>WKTError\<close>.
\<close>

theorem converter_errors_unwrapped:
  "(\<forall>x. fst (geojson_to_shapefile lib fs geojson_path shapefile_path force) = Inl x \<longrightarrow>
        (\<exists>e. x = Raised e))
   \<and> (\<forall>e. output_path_of geojson_path shapefile_path = Inl e \<longrightarrow>
        geojson_to_shapefile lib fs geojson_path shapefile_path force = (Inl (Raised e), fs))
   \<and> (\<forall>dest e fs1.
        output_path_of geojson_path shapefile_path = Inr dest \<longrightarrow>
        mkdir True True fs (parent dest) = (Inl e, fs1) \<longrightarrow>
        geojson_to_shapefile lib fs geojson_path shapefile_path force = (Inl (Raised e), fs1))
   \<and> (\<forall>dest fs1 e.
        output_path_of geojson_path shapefile_path = Inr dest \<longrightarrow>
        mkdir True True fs (parent dest) = (Inr (), fs1) \<longrightarrow>
        read_file lib fs1 (PathObj (Path geojson_path)) = Inl e \<longrightarrow>
        geojson_to_shapefile lib fs geojson_path shapefile_path force = (Inl (Raised e), fs1))
   \<and> (\<forall>dest fs1 df spec e.
        output_path_of geojson_path shapefile_path = Inr dest \<longrightarrow>
        mkdir True True fs (parent dest) = (Inr (), fs1) \<longrightarrow>
        read_file lib fs1 (PathObj (Path geojson_path)) = Inr df \<longrightarrow>
        crs df = None \<longrightarrow> force = Some spec \<longrightarrow> from_user_input lib spec = Inl e \<longrightarrow>
        geojson_to_shapefile lib fs geojson_path shapefile_path force = (Inl (Raised e), fs1))
   \<and> (\<forall>dest fs1 df df' e fs2.
        output_path_of geojson_path shapefile_path = Inr dest \<longrightarrow>
        mkdir True True fs (parent dest) = (Inr (), fs1) \<longrightarrow>
        read_file lib fs1 (PathObj (Path geojson_path)) = Inr df \<longrightarrow>
        apply_force_crs lib df force = Inr df' \<longrightarrow>
        to_file lib df' dest fs1 = (Inl e, fs2) \<longrightarrow>
        geojson_to_shapefile lib fs geojson_path shapefile_path force = (Inl (Raised e), fs2))"
proof (intro conjI allI impI)
  fix x
  assume "fst (geojson_to_shapefile lib fs geojson_path shapefile_path force) = Inl x"
  then show "\<exists>e. x = Raised e"
    by (auto simp: geojson_to_shapefile_def split: sum.splits prod.splits)
qed (simp_all add: geojson_to_shapefile_def apply_force_crs_def set_crs_def)

theorem converter_errors_unwrapped_witness:
  "geojson_to_shapefile example_lib example_fs (Str ''missing.geojson'')
       (Some (Str ''out/sub/'')) None
     = (Inl (Raised DataSourceError), out_sub_fs)
   \<and> geojson_to_shapefile example_lib example_fs (Str ''missing.geojson'')
         (Some (Str ''data.geojson/sub/out.shp'')) None
       = (Inl (Raised NotADirectoryError), example_fs)
   \<and> geojson_to_shapefile example_lib example_fs (Str ''.'') None None
       = (Inl (Raised ValueError), example_fs)
   \<and> geojson_to_shapefile example_lib example_fs (Str ''data.geojson'')
         (Some (Str ''out/sub/'')) (Some (CrsStr ''bogus''))
       = (Inl (Raised CRSError), out_sub_fs)"
proof -
  have 1: "geojson_to_shapefile example_lib example_fs (Str ''missing.geojson'')
      (Some (Str ''out/sub/'')) None = (Inl (Raised DataSourceError), out_sub_fs)"
    by (rule converter_errors_unwrapped [THEN conjunct2, THEN conjunct2, THEN conjunct2,
          THEN conjunct1, rule_format, OF run_b])
  have 2: "geojson_to_shapefile example_lib example_fs (Str ''missing.geojson'')
      (Some (Str ''data.geojson/sub/out.shp'')) None
      = (Inl (Raised NotADirectoryError), example_fs)"
    by (rule converter_errors_unwrapped [THEN conjunct2, THEN conjunct2, THEN conjunct1,
          rule_format, OF run_blocked])
  have 3: "geojson_to_shapefile example_lib example_fs (Str ''.'') None None
      = (Inl (Raised ValueError), example_fs)"
    by (rule converter_errors_unwrapped [THEN conjunct2, THEN conjunct1, rule_format,
          OF example_output_paths(6)])
  have c: "crs two_polygons = None"
    by (simp add: two_polygons_def)
  have 4: "geojson_to_shapefile example_lib example_fs (Str ''data.geojson'')
      (Some (Str ''out/sub/'')) (Some (CrsStr ''bogus'')) = (Inl (Raised CRSError), out_sub_fs)"
    by (rule converter_errors_unwrapped [THEN conjunct2, THEN conjunct2, THEN conjunct2,
          THEN conjunct2, THEN conjunct1, rule_format,
          OF run_a(1) run_a(2) run_a(3) c refl example_crs(3)])
  from 1 2 3 4 show ?thesis
    by simp
qed

end
